theory Spec2Isabelle
  imports Main "HOL-Library.Word"
begin

unbundle bit_operations_syntax

section \<open>Bytes and Go strings\<close>

text \<open>
  A Go \<^verbatim>\<open>[]byte\<close> and a Go \<^verbatim>\<open>string\<close> are both sequences of 8-bit values;
  the conversion between them copies the bytes unchanged.
\<close>

type_synonym byte = "8 word"
type_synonym bytes = "byte list"
type_synonym uint16 = "16 word"
type_synonym uint32 = "32 word"

section \<open>cstrings.go\<close>

text \<open>\<^verbatim>\<open>strings.Trim(s, "\x00")\<close>: all leading and all trailing NUL bytes removed.\<close>

definition trim_nul :: "bytes \<Rightarrow> bytes" where
  "trim_nul s = rev (dropWhile (\<lambda>b. b = 0) (rev (dropWhile (\<lambda>b. b = 0) s)))"

text \<open>
  \<^verbatim>\<open>strings.Split(s, "\x00")\<close>: the pieces of \<open>s\<close> between NUL bytes. The result always has
  one more element than \<open>s\<close> has NUL bytes; in particular the empty string splits into one empty
  piece.
\<close>

fun split_nul :: "bytes \<Rightarrow> bytes list" where
  "split_nul [] = [[]]"
| "split_nul (b # bs) =
     (if b = 0 then [] # split_nul bs
      else (b # hd (split_nul bs)) # tl (split_nul bs))"

definition decodeCStrings :: "bytes \<Rightarrow> bytes list" where
  "decodeCStrings data = (if length data = 0 then [] else split_nul (trim_nul data))"

text \<open>\<^verbatim>\<open>bytes.IndexByte(data, 0)\<close>, with \<open>None\<close> for Go's \<open>-1\<close>.\<close>

fun indexNul :: "bytes \<Rightarrow> nat option" where
  "indexNul [] = None"
| "indexNul (b # bs) = (if b = 0 then Some 0 else map_option Suc (indexNul bs))"

definition readCString :: "bytes \<Rightarrow> bytes" where
  "readCString data = (case indexNul data of None \<Rightarrow> data | Some pos \<Rightarrow> take pos data)"

definition appendCString :: "bytes \<Rightarrow> bytes \<Rightarrow> bytes" where
  "appendCString dest s = (dest @ s) @ [0]"

text \<open>
  The encoder the round-trip property speaks of: \<open>appendCString\<close> applied to each element in
  order, starting from the empty buffer (the loop of \<^verbatim>\<open>ClientSession.Macros\<close>, \<^verbatim>\<open>Mail\<close> and
  \<^verbatim>\<open>Rcpt\<close>).
\<close>

definition encodeCStrings :: "bytes list \<Rightarrow> bytes" where
  "encodeCStrings ss = foldl appendCString [] ss"

text \<open>The strings joined with single NUL separators, without a terminator.\<close>

fun join_nul :: "bytes list \<Rightarrow> bytes" where
  "join_nul [] = []"
| "join_nul [s] = s"
| "join_nul (s # t # ss) = s @ 0 # join_nul (t # ss)"

definition nul_free :: "bytes \<Rightarrow> bool" where
  "nul_free s = (0 \<notin> set s)"

section \<open>message.go: messages and wire codes\<close>

record Message =
  Code :: byte
  Data :: bytes

text \<open>Command codes (type \<^verbatim>\<open>Code\<close>).\<close>

abbreviation CodeOptNeg :: byte where "CodeOptNeg \<equiv> 0x4F" \<comment> \<open>'O'\<close>
abbreviation CodeMacro :: byte where "CodeMacro \<equiv> 0x44" \<comment> \<open>'D'\<close>
abbreviation CodeConn :: byte where "CodeConn \<equiv> 0x43" \<comment> \<open>'C'\<close>
abbreviation CodeQuit :: byte where "CodeQuit \<equiv> 0x51" \<comment> \<open>'Q'\<close>
abbreviation CodeHelo :: byte where "CodeHelo \<equiv> 0x48" \<comment> \<open>'H'\<close>
abbreviation CodeMail :: byte where "CodeMail \<equiv> 0x4D" \<comment> \<open>'M'\<close>
abbreviation CodeRcpt :: byte where "CodeRcpt \<equiv> 0x52" \<comment> \<open>'R'\<close>
abbreviation CodeHeader :: byte where "CodeHeader \<equiv> 0x4C" \<comment> \<open>'L'\<close>
abbreviation CodeEOH :: byte where "CodeEOH \<equiv> 0x4E" \<comment> \<open>'N'\<close>
abbreviation CodeBody :: byte where "CodeBody \<equiv> 0x42" \<comment> \<open>'B'\<close>
abbreviation CodeEOB :: byte where "CodeEOB \<equiv> 0x45" \<comment> \<open>'E'\<close>
abbreviation CodeAbort :: byte where "CodeAbort \<equiv> 0x41" \<comment> \<open>'A'\<close>
abbreviation CodeData :: byte where "CodeData \<equiv> 0x54" \<comment> \<open>'T'\<close>

text \<open>Action codes (type \<^verbatim>\<open>ActionCode\<close>).\<close>

abbreviation ActAccept :: byte where "ActAccept \<equiv> 0x61" \<comment> \<open>'a'\<close>
abbreviation ActContinue :: byte where "ActContinue \<equiv> 0x63" \<comment> \<open>'c'\<close>
abbreviation ActDiscard :: byte where "ActDiscard \<equiv> 0x64" \<comment> \<open>'d'\<close>
abbreviation ActReject :: byte where "ActReject \<equiv> 0x72" \<comment> \<open>'r'\<close>
abbreviation ActTempFail :: byte where "ActTempFail \<equiv> 0x74" \<comment> \<open>'t'\<close>
abbreviation ActReplyCode :: byte where "ActReplyCode \<equiv> 0x79" \<comment> \<open>'y'\<close>
abbreviation ActSkip :: byte where "ActSkip \<equiv> 0x73" \<comment> \<open>'s'\<close>

text \<open>Modify-action codes (type \<^verbatim>\<open>ModifyActCode\<close>).\<close>

abbreviation ActAddRcpt :: byte where "ActAddRcpt \<equiv> 0x2B" \<comment> \<open>'+'\<close>
abbreviation ActDelRcpt :: byte where "ActDelRcpt \<equiv> 0x2D" \<comment> \<open>'-'\<close>
abbreviation ActReplBody :: byte where "ActReplBody \<equiv> 0x62" \<comment> \<open>'b'\<close>
abbreviation ActAddHeader :: byte where "ActAddHeader \<equiv> 0x68" \<comment> \<open>'h'\<close>
abbreviation ActChangeHeader :: byte where "ActChangeHeader \<equiv> 0x6D" \<comment> \<open>'m'\<close>
abbreviation ActInsertHeader :: byte where "ActInsertHeader \<equiv> 0x69" \<comment> \<open>'i'\<close>
abbreviation ActChangeFrom :: byte where "ActChangeFrom \<equiv> 0x65" \<comment> \<open>'e'\<close>
abbreviation ActQuarantine :: byte where "ActQuarantine \<equiv> 0x71" \<comment> \<open>'q'\<close>

abbreviation MaxBodyChunk :: nat where "MaxBodyChunk \<equiv> 65535"

text \<open>Protocol option bits (type \<^verbatim>\<open>OptProtocol\<close>) consulted by the client calls below.\<close>

abbreviation OptNoBody :: uint32 where "OptNoBody \<equiv> 0x10" \<comment> \<open>1 << 4\<close>
abbreviation OptNoBodyReply :: uint32 where "OptNoBodyReply \<equiv> 0x80000" \<comment> \<open>1 << 19\<close>

section \<open>Errors and outcomes\<close>

text \<open>
  The Go code reports failures as \<^verbatim>\<open>error\<close> values built from message strings. They are
  tagged here by their origin: an error handed up from the transport (\<open>IOError\<close>), a malformed
  or unexpected packet (\<open>ProtocolError\<close>), a milter version below the client's
  (\<open>NegotiationError\<close>), an over-large body chunk (\<open>UsageError\<close>), an error returned by the
  body reader (\<open>ReaderError\<close>), an error returned by a handler callback (\<open>HandlerError\<close>) and
  the sentinel \<^verbatim>\<open>errCloseSession\<close>.

  A Go run-time panic (index or slice bound out of range) is not a returned error: it
  is the separate outcome \<open>Panic\<close>.
\<close>

datatype error =
  IOError | ProtocolError | NegotiationError | UsageError | ReaderError | HandlerError
  | ErrCloseSession

datatype 'a outcome = Return 'a | Fail error | Panic

section \<open>The transport\<close>

text \<open>
  A \<^verbatim>\<open>net.Conn\<close> as the session sees it: \<open>rx\<close> holds the bytes the peer delivers before
  its side of the stream ends, \<open>tx\<close> the bytes written so far, \<open>wr\<close> scripts the outcome of
  the coming write operations (\<open>True\<close>: the write succeeds; an exhausted script: every further
  write succeeds) and \<open>closed\<close> records a local \<^verbatim>\<open>Close\<close>. Deadlines are not modelled: a
  read that would block for ever on a silent peer is the short read here.
\<close>

record net_conn =
  rx :: bytes
  tx :: bytes
  wr :: "bool list"
  closed :: bool

text \<open>
  \<^verbatim>\<open>io.ReadFull(conn, buf)\<close> for a buffer of \<open>n\<close> bytes: \<open>None\<close> is the error (end of
  stream before \<open>n\<close> bytes, or a closed connection). A buffer of length 0 is filled without
  touching the connection.
\<close>

definition conn_ReadFull :: "net_conn \<Rightarrow> nat \<Rightarrow> bytes option \<times> net_conn" where
  "conn_ReadFull c n =
     (if n = 0 then (Some [], c)
      else if closed c then (None, c)
      else if length (rx c) < n then (None, c\<lparr>rx := []\<rparr>)
      else (Some (take n (rx c)), c\<lparr>rx := drop n (rx c)\<rparr>))"

text \<open>One write operation: all of \<open>bs\<close> is sent, or the write fails and nothing is.\<close>

definition conn_Write :: "net_conn \<Rightarrow> bytes \<Rightarrow> bool \<times> net_conn" where
  "conn_Write c bs =
     (if closed c then (False, c)
      else (case wr c of
              [] \<Rightarrow> (True, c\<lparr>tx := tx c @ bs\<rparr>)
            | ok # rest \<Rightarrow>
                (if ok then (True, c\<lparr>tx := tx c @ bs, wr := rest\<rparr>)
                 else (False, c\<lparr>wr := rest\<rparr>))))"

definition conn_Close :: "net_conn \<Rightarrow> error option \<times> net_conn" where
  "conn_Close c = (if closed c then (Some IOError, c) else (None, c\<lparr>closed := True\<rparr>))"

text \<open>The coming \<open>n\<close> write operations on \<open>c\<close> all succeed.\<close>

definition writable :: "net_conn \<Rightarrow> nat \<Rightarrow> bool" where
  "writable c n = (\<not> closed c \<and> list_all (\<lambda>ok. ok) (take n (wr c)))"


section \<open>Frame codec (\<^verbatim>\<open>readPacket\<close>, \<^verbatim>\<open>writePacket\<close>)\<close>

text \<open>\<^verbatim>\<open>binary.BigEndian.Uint32\<close> on the first four bytes; callers check the length first.\<close>

definition be_uint32 :: "bytes \<Rightarrow> uint32" where
  "be_uint32 b =
     push_bit 24 (ucast (b ! 0)) OR push_bit 16 (ucast (b ! 1))
       OR push_bit 8 (ucast (b ! 2)) OR ucast (b ! 3)"

text \<open>\<^verbatim>\<open>binary.BigEndian.PutUint32\<close>: the four bytes of \<open>v\<close>, most significant first.\<close>

definition put_uint32 :: "uint32 \<Rightarrow> bytes" where
  "put_uint32 v = [ucast (drop_bit 24 v), ucast (drop_bit 16 v), ucast (drop_bit 8 v), ucast v]"

definition readPacket :: "net_conn \<Rightarrow> Message outcome \<times> net_conn" where
  "readPacket c =
     (case conn_ReadFull c 4 of
        (None, c1) \<Rightarrow> (Fail IOError, c1)
      | (Some hdr, c1) \<Rightarrow>
          (let length' = be_uint32 hdr in
           case conn_ReadFull c1 (unat length') of
             (None, c2) \<Rightarrow> (Fail IOError, c2)
           | (Some data, c2) \<Rightarrow>
               (case data of
                  [] \<Rightarrow> (Panic, c2)
                | code # payload \<Rightarrow> (Return \<lparr>Code = code, Data = payload\<rparr>, c2))))"

text \<open>The bytes \<^verbatim>\<open>writePacket\<close> puts into its buffer: length (wrapping at 32 bits), code, data.\<close>

definition encodePacket :: "Message \<Rightarrow> bytes" where
  "encodePacket msg = put_uint32 (of_nat (length (Data msg) + 1)) @ [Code msg] @ Data msg"

definition writePacket :: "net_conn \<Rightarrow> Message \<Rightarrow> error option \<times> net_conn" where
  "writePacket c msg =
     (case conn_Write c (encodePacket msg) of
        (True, c') \<Rightarrow> (None, c')
      | (False, c') \<Rightarrow> (Some IOError, c'))"


section \<open>Client session (latest \<^verbatim>\<open>client.go\<close>)\<close>

text \<open>The read and write timeouts of the session only set deadlines and are left out.\<close>

record ClientSession =
  conn :: net_conn
  ActionOpts :: uint32
  ProtocolOpts :: uint32
  needAbort :: bool

abbreviation clientProtocolVersion :: uint32 where "clientProtocolVersion \<equiv> 2"

definition negotiate :: "ClientSession \<Rightarrow> uint32 \<Rightarrow> uint32 \<Rightarrow> unit outcome \<times> ClientSession" where
  "negotiate s actionMask protoMask =
     (let msg = \<lparr>Code = CodeOptNeg,
                 Data = put_uint32 clientProtocolVersion @ put_uint32 actionMask
                          @ put_uint32 protoMask\<rparr>
      in case writePacket (conn s) msg of
           (Some e, c) \<Rightarrow> (Fail e, s\<lparr>conn := c\<rparr>)
         | (None, c) \<Rightarrow>
             (case readPacket c of
                (Panic, c') \<Rightarrow> (Panic, s\<lparr>conn := c'\<rparr>)
              | (Fail e, c') \<Rightarrow> (Fail e, s\<lparr>conn := c'\<rparr>)
              | (Return msg', c') \<Rightarrow>
                  (if Code msg' \<noteq> CodeOptNeg then (Fail ProtocolError, s\<lparr>conn := c'\<rparr>)
                   else if length (Data msg') < 4 * 3 then (Fail ProtocolError, s\<lparr>conn := c'\<rparr>)
                   else
                     (let milterVersion = be_uint32 (take 4 (Data msg')) in
                      if milterVersion < clientProtocolVersion
                      then (Fail NegotiationError, s\<lparr>conn := c'\<rparr>)
                      else
                        (let milterActionMask = be_uint32 (drop 4 (Data msg'));
                             milterProtoMask = be_uint32 (drop 8 (Data msg'))
                         in (Return (),
                             s\<lparr>conn := c', ActionOpts := milterActionMask,
                               ProtocolOpts := milterProtoMask, needAbort := True\<rparr>))))))"

text \<open>
  The earlier \<^verbatim>\<open>negotiate\<close> (second version of the client in the sources), which differs
  from the latest one in the two assignments of the masks only.
\<close>

definition negotiate_earlier ::
  "ClientSession \<Rightarrow> uint32 \<Rightarrow> uint32 \<Rightarrow> unit outcome \<times> ClientSession" where
  "negotiate_earlier s actionMask protoMask =
     (let msg = \<lparr>Code = CodeOptNeg,
                 Data = put_uint32 clientProtocolVersion @ put_uint32 actionMask
                          @ put_uint32 protoMask\<rparr>
      in case writePacket (conn s) msg of
           (Some e, c) \<Rightarrow> (Fail e, s\<lparr>conn := c\<rparr>)
         | (None, c) \<Rightarrow>
             (case readPacket c of
                (Panic, c') \<Rightarrow> (Panic, s\<lparr>conn := c'\<rparr>)
              | (Fail e, c') \<Rightarrow> (Fail e, s\<lparr>conn := c'\<rparr>)
              | (Return msg', c') \<Rightarrow>
                  (if Code msg' \<noteq> CodeOptNeg then (Fail ProtocolError, s\<lparr>conn := c'\<rparr>)
                   else if length (Data msg') < 4 * 3 then (Fail ProtocolError, s\<lparr>conn := c'\<rparr>)
                   else
                     (let milterVersion = be_uint32 (take 4 (Data msg')) in
                      if milterVersion < clientProtocolVersion
                      then (Fail NegotiationError, s\<lparr>conn := c'\<rparr>)
                      else
                        (let milterActionMask = be_uint32 (drop 4 (Data msg'));
                             milterProtoMask = be_uint32 (drop 8 (Data msg'))
                         in (Return (),
                             s\<lparr>conn := c', ActionOpts := actionMask AND milterActionMask,
                               ProtocolOpts := protoMask AND milterProtoMask,
                               needAbort := True\<rparr>))))))"

definition ProtocolOption :: "ClientSession \<Rightarrow> uint32 \<Rightarrow> bool" where
  "ProtocolOption s opt = (ProtocolOpts s AND opt \<noteq> 0)"

definition ActionOption :: "ClientSession \<Rightarrow> uint32 \<Rightarrow> bool" where
  "ActionOption s opt = (ActionOpts s AND opt \<noteq> 0)"

record Action =
  act_Code :: byte
  SMTPCode :: int
  SMTPText :: bytes

text \<open>\<^verbatim>\<open>&Action{Code: ActContinue}\<close>, the reply synthesised for a suppressed command.\<close>

definition continueAction :: Action where
  "continueAction = \<lparr>act_Code = ActContinue, SMTPCode = 0, SMTPText = []\<rparr>"

text \<open>
  \<^verbatim>\<open>strconv.Atoi\<close> on a short string (here always three bytes): an optional sign, then one
  or more decimal digits; anything else is the syntax error \<open>None\<close>.
\<close>

definition is_digit :: "byte \<Rightarrow> bool" where
  "is_digit b = (0x30 \<le> b \<and> b \<le> 0x39)"

definition Atoi :: "bytes \<Rightarrow> int option" where
  "Atoi s =
     (case s of
        [] \<Rightarrow> None
      | b # rest \<Rightarrow>
          (let ds = (if b = 0x2D \<or> b = 0x2B then rest else s) in
           if ds = [] \<or> \<not> list_all is_digit ds then None
           else
             (let n = foldl (\<lambda>a d. a * 10 + uint (d - 0x30)) 0 ds
              in Some (if b = 0x2D then - n else n))))"

definition parseAction :: "Message \<Rightarrow> Action outcome" where
  "parseAction msg =
     (let act = \<lparr>act_Code = Code msg, SMTPCode = 0, SMTPText = []\<rparr> in
      if Code msg = ActAccept \<or> Code msg = ActContinue \<or> Code msg = ActDiscard
         \<or> Code msg = ActReject \<or> Code msg = ActTempFail
      then Return act
      else if Code msg = ActReplyCode then
        (if length (Data msg) \<le> 4 then Fail ProtocolError
         else
           (case Atoi (take 3 (Data msg)) of
              None \<Rightarrow> Fail ProtocolError
            | Some n \<Rightarrow>
                Return (act\<lparr>SMTPCode := n, SMTPText := readCString (drop 4 (Data msg))\<rparr>)))
      else Fail ProtocolError)"

lemma readPacket_consumes:
  "fst (readPacket c) = Return msg \<Longrightarrow> length (rx (snd (readPacket c))) < length (rx c)"
  by (auto simp: readPacket_def conn_ReadFull_def Let_def
           split: if_splits list.splits prod.splits option.splits)

function readAction :: "ClientSession \<Rightarrow> Action outcome \<times> ClientSession" where
  "readAction s =
     (let r = readPacket (conn s); s' = s\<lparr>conn := snd r\<rparr> in
      case fst r of
        Panic \<Rightarrow> (Panic, s')
      | Fail e \<Rightarrow> (Fail e, s')
      | Return msg \<Rightarrow>
          (if Code msg = 0x70 \<comment> \<open>'p', progress\<close> then readAction s'
           else
             (let s'' = (if Code msg \<noteq> ActContinue then s'\<lparr>needAbort := False\<rparr> else s')
              in (parseAction msg, s''))))"
  by pat_completeness auto
termination
  by (relation "measure (\<lambda>s. length (rx (conn s)))") (auto dest: readPacket_consumes)

declare readAction.simps [simp del]

definition BodyChunk :: "ClientSession \<Rightarrow> bytes \<Rightarrow> Action outcome \<times> ClientSession" where
  "BodyChunk s chunk =
     (if ProtocolOpts s AND OptNoBody \<noteq> 0 then (Return continueAction, s)
      else if length chunk > MaxBodyChunk then (Fail UsageError, s)
      else
        (case writePacket (conn s) \<lparr>Code = CodeBody, Data = chunk\<rparr> of
           (Some e, c) \<Rightarrow> (Fail e, s\<lparr>conn := c\<rparr>)
         | (None, c) \<Rightarrow>
             (if \<not> ProtocolOption (s\<lparr>conn := c\<rparr>) OptNoBodyReply then readAction (s\<lparr>conn := c\<rparr>)
              else (Return continueAction, s\<lparr>conn := c\<rparr>))))"


record ModifyAction =
  mod_Code :: byte
  Rcpt :: bytes
  From :: bytes
  FromArgs :: "bytes list"
  Body :: bytes
  HeaderIndex :: uint32
  HeaderName :: bytes
  HeaderValue :: bytes
  Reason :: bytes

text \<open>
  The tail of \<^verbatim>\<open>parseModifyAct\<close> shared by the three header actions (the
  \<^verbatim>\<open>ActAddHeader\<close> case, entered directly or by \<^verbatim>\<open>fallthrough\<close>).
\<close>

definition parseHeaderNameValue :: "ModifyAction \<Rightarrow> bytes \<Rightarrow> ModifyAction outcome" where
  "parseHeaderNameValue act data =
     (case indexNul data of
        None \<Rightarrow> Fail ProtocolError
      | Some nul \<Rightarrow>
          (if nul = length data then Fail ProtocolError
           else Return (act\<lparr>HeaderName := readCString data,
                            HeaderValue := readCString (drop (nul + 1) data)\<rparr>)))"

definition parseModifyAct :: "Message \<Rightarrow> ModifyAction outcome" where
  "parseModifyAct msg =
     (let act = \<lparr>mod_Code = Code msg, Rcpt = [], From = [], FromArgs = [], Body = [],
                 HeaderIndex = 0, HeaderName = [], HeaderValue = [], Reason = []\<rparr> in
      if Code msg = ActAddRcpt \<or> Code msg = ActDelRcpt
      then Return (act\<lparr>Rcpt := readCString (Data msg)\<rparr>)
      else if Code msg = ActQuarantine then Return (act\<lparr>Reason := readCString (Data msg)\<rparr>)
      else if Code msg = ActReplBody then Return (act\<lparr>Body := Data msg\<rparr>)
      else if Code msg = ActChangeFrom then
        (let argv = split_nul (Data msg)
         in Return (act\<lparr>From := hd argv, FromArgs := tl argv\<rparr>))
      else if Code msg = ActChangeHeader \<or> Code msg = ActInsertHeader then
        (if length (Data msg) < 4 then Fail ProtocolError
         else parseHeaderNameValue (act\<lparr>HeaderIndex := be_uint32 (Data msg)\<rparr>)
                (drop 4 (Data msg)))
      else if Code msg = ActAddHeader then parseHeaderNameValue act (Data msg)
      else Fail ProtocolError)"

definition isModifyActCode :: "byte \<Rightarrow> bool" where
  "isModifyActCode c =
     (c = ActAddRcpt \<or> c = ActDelRcpt \<or> c = ActReplBody \<or> c = ActChangeHeader
      \<or> c = ActInsertHeader \<or> c = ActAddHeader \<or> c = ActChangeFrom \<or> c = ActQuarantine)"

text \<open>
  \<^verbatim>\<open>readModifyActs\<close>; the second argument is the named result \<^verbatim>\<open>modifyActs\<close>
  collected so far, empty on entry.
\<close>

function readModifyActs ::
  "ClientSession \<Rightarrow> ModifyAction list
     \<Rightarrow> (ModifyAction list \<times> Action) outcome \<times> ClientSession" where
  "readModifyActs s modifyActs =
     (let r = readPacket (conn s); s' = s\<lparr>conn := snd r\<rparr> in
      case fst r of
        Panic \<Rightarrow> (Panic, s')
      | Fail e \<Rightarrow> (Fail e, s')
      | Return msg \<Rightarrow>
          (if Code msg = 0x70 \<comment> \<open>'p', progress\<close> then readModifyActs s' modifyActs
           else if isModifyActCode (Code msg) then
             (case parseModifyAct msg of
                Panic \<Rightarrow> (Panic, s')
              | Fail e \<Rightarrow> (Fail e, s')
              | Return modifyAct \<Rightarrow> readModifyActs s' (modifyActs @ [modifyAct]))
           else
             (case parseAction msg of
                Panic \<Rightarrow> (Panic, s')
              | Fail e \<Rightarrow> (Fail e, s')
              | Return act \<Rightarrow> (Return (modifyActs, act), s'))))"
  by pat_completeness auto
termination
  by (relation "measure (\<lambda>(s, acts). length (rx (conn s)))") (auto dest: readPacket_consumes)

declare readModifyActs.simps [simp del]

definition End :: "ClientSession \<Rightarrow> (ModifyAction list \<times> Action) outcome \<times> ClientSession" where
  "End s =
     (case writePacket (conn s) \<lparr>Code = CodeEOB, Data = []\<rparr> of
        (Some e, c) \<Rightarrow> (Fail e, s\<lparr>conn := c\<rparr>)
      | (None, c) \<Rightarrow> readModifyActs (s\<lparr>conn := c\<rparr>) [])"

text \<open>
  \<^verbatim>\<open>Close\<close>: the result of writing the Abort packet is discarded; a failed write of the
  Quit packet returns before \<^verbatim>\<open>s.conn.Close()\<close>.
\<close>

definition Close :: "ClientSession \<Rightarrow> unit outcome \<times> ClientSession" where
  "Close s =
     (let c1 = (if needAbort s then snd (writePacket (conn s) \<lparr>Code = CodeAbort, Data = []\<rparr>)
                else conn s)
      in case writePacket c1 \<lparr>Code = CodeQuit, Data = []\<rparr> of
           (Some e, c2) \<Rightarrow> (Fail e, s\<lparr>conn := c2\<rparr>)
         | (None, c2) \<Rightarrow>
             (case conn_Close c2 of
                (Some e, c3) \<Rightarrow> (Fail e, s\<lparr>conn := c3\<rparr>)
              | (None, c3) \<Rightarrow> (Return (), s\<lparr>conn := c3\<rparr>)))"

subsection \<open>The body reader\<close>

text \<open>
  An \<^verbatim>\<open>io.Reader\<close> is a script of what its coming \<^verbatim>\<open>Read\<close> calls deliver: \<open>RdData bs\<close>
  hands out \<open>bs\<close> with a nil error (in pieces, where \<open>bs\<close> is longer than the caller's
  buffer), \<open>RdFail\<close> returns an error other than \<^verbatim>\<open>io.EOF\<close>, and the exhausted script
  returns \<^verbatim>\<open>io.EOF\<close>. \<^verbatim>\<open>BodyReadFrom\<close> looks at the error before the byte count, so bytes
  delivered together with an error are never used and need no event of their own.
\<close>

datatype rd_event = RdData bytes | RdFail

datatype rd_result = ReadOk bytes | ReadEOF | ReadErr

type_synonym reader = "rd_event list"

fun reader_Read :: "reader \<Rightarrow> nat \<Rightarrow> rd_result \<times> reader" where
  "reader_Read [] n = (ReadEOF, [])"
| "reader_Read (RdFail # r) n = (ReadErr, r)"
| "reader_Read (RdData bs # r) n =
     (if length bs \<le> n then (ReadOk bs, r)
      else (ReadOk (take n bs), RdData (drop n bs) # r))"

fun rd_size :: "rd_event \<Rightarrow> nat" where
  "rd_size (RdData bs) = Suc (length bs)"
| "rd_size RdFail = 1"

lemma reader_Read_decreases:
  "0 < n \<Longrightarrow> fst (reader_Read r n) \<noteq> ReadEOF
     \<Longrightarrow> sum_list (map rd_size (snd (reader_Read r n))) < sum_list (map rd_size r)"
  by (induction r n rule: reader_Read.induct) auto

function BodyReadFrom ::
  "ClientSession \<Rightarrow> reader \<Rightarrow> (ModifyAction list \<times> Action) outcome \<times> ClientSession" where
  "BodyReadFrom s r =
     (let rd = reader_Read r MaxBodyChunk in
      case fst rd of
        ReadEOF \<Rightarrow> End s
      | ReadErr \<Rightarrow> (Fail ReaderError, s)
      | ReadOk buf \<Rightarrow>
          (if length buf = 0 then End s
           else
             (let bc = BodyChunk s buf in
              case fst bc of
                Panic \<Rightarrow> (Panic, snd bc)
              | Fail e \<Rightarrow> (Fail e, snd bc)
              | Return act \<Rightarrow>
                  (if act_Code act = ActSkip then End (snd bc)
                   else if act_Code act \<noteq> ActContinue then (Return ([], act), snd bc)
                   else BodyReadFrom (snd bc) (snd rd)))))"
  by pat_completeness auto
termination
proof (relation "measure (\<lambda>(s, r). sum_list (map rd_size r))", goal_cases)
  case 1
  show ?case by simp
next
  case (2 s r rd buf bc act)
  then have "fst (reader_Read r MaxBodyChunk) \<noteq> ReadEOF" by simp
  then have "sum_list (map rd_size (snd (reader_Read r MaxBodyChunk))) < sum_list (map rd_size r)"
    by (intro reader_Read_decreases) simp_all
  with 2 show ?case by simp
qed

declare BodyReadFrom.simps [simp del]


section \<open>Server session (latest \<^verbatim>\<open>session.go\<close>)\<close>

type_synonym MIMEHeader = "bytes \<rightharpoonup> bytes list"

text \<open>
  A Go map that may be \<^verbatim>\<open>nil\<close> is an optional map: \<open>None\<close> is the nil map, which reads as
  empty. \<^verbatim>\<open>Modifier.writePacket\<close> is the session's \<^verbatim>\<open>WritePacket\<close>; what a callback
  sends through it is part of the callback's result below.
\<close>

record Modifier =
  Macros :: "(bytes \<rightharpoonup> bytes) option"
  Headers :: "MIMEHeader option"

text \<open>
  Modelled from the spec: the \<^verbatim>\<open>Response\<close> values, whose source file is not among the
  sources. A response serialises to one packet and has a \<^verbatim>\<open>Continue()\<close> predicate; a fresh
  handler is installed after any terminal action other than continue (spec 3 and 4.5.1).
\<close>

record Response =
  Response_msg :: Message
  Continue :: bool

text \<open>
  Modelled from the spec: \<^verbatim>\<open>NewResponse\<close> and the predefined responses, also missing from
  the sources. \<^verbatim>\<open>Continue()\<close> is false exactly for the terminal actions other than continue
  (a, d, r, t, y, s).
\<close>

definition NewResponse :: "byte \<Rightarrow> bytes \<Rightarrow> Response" where
  "NewResponse code data =
     \<lparr>Response_msg = \<lparr>Code = code, Data = data\<rparr>,
      Continue = (\<not> (code = ActAccept \<or> code = ActDiscard \<or> code = ActReject
                       \<or> code = ActTempFail \<or> code = ActReplyCode \<or> code = ActSkip))\<rparr>"

definition RespContinue :: Response where
  "RespContinue = NewResponse ActContinue []"

definition RespTempFail :: Response where
  "RespTempFail = NewResponse ActTempFail []"

text \<open>
  What one call of a handler method does, as far as the session can tell: the value it returns
  (\<open>cb_result\<close>), whether it returns a non-nil error, the handler's state afterwards, and the
  packets it sent through the modifier while it ran.
\<close>

record ('r, 'h) callback =
  cb_result :: 'r
  cb_error :: bool
  cb_backend :: 'h
  cb_packets :: "Message list"

text \<open>
  The \<^verbatim>\<open>Milter\<close> interface: one function per method, over the handler's state \<open>'h\<close>.
  \<open>'ip\<close> is \<^verbatim>\<open>net.IP\<close>.
\<close>

record ('h, 'ip) Milter =
  h_Connect :: "'h \<Rightarrow> bytes \<Rightarrow> bytes \<Rightarrow> uint16 \<Rightarrow> 'ip \<Rightarrow> Modifier \<Rightarrow> (Response option, 'h) callback"
  h_Helo :: "'h \<Rightarrow> bytes \<Rightarrow> Modifier \<Rightarrow> (Response option, 'h) callback"
  h_MailFrom :: "'h \<Rightarrow> bytes \<Rightarrow> Modifier \<Rightarrow> (Response option, 'h) callback"
  h_RcptTo :: "'h \<Rightarrow> bytes \<Rightarrow> Modifier \<Rightarrow> (Response option, 'h) callback"
  h_Header :: "'h \<Rightarrow> bytes \<Rightarrow> bytes \<Rightarrow> Modifier \<Rightarrow> (Response option, 'h) callback"
  h_Headers :: "'h \<Rightarrow> MIMEHeader option \<Rightarrow> Modifier \<Rightarrow> (Response option, 'h) callback"
  h_BodyChunk :: "'h \<Rightarrow> bytes \<Rightarrow> Modifier \<Rightarrow> (Response option, 'h) callback"
  h_Body :: "'h \<Rightarrow> Modifier \<Rightarrow> (Response option, 'h) callback"
  h_Abort :: "'h \<Rightarrow> Modifier \<Rightarrow> (unit, 'h) callback"

text \<open>
  The two functions of the Go standard library the session calls on packet contents,
  \<^verbatim>\<open>net.ParseIP\<close> and \<^verbatim>\<open>textproto.CanonicalMIMEHeaderKey\<close> (inside \<^verbatim>\<open>MIMEHeader.Add\<close>),
  are parameters.
\<close>

record 'ip stdlib =
  ParseIP :: "bytes \<Rightarrow> 'ip"
  CanonicalMIMEHeaderKey :: "bytes \<Rightarrow> bytes"

text \<open>
  The fields of \<^verbatim>\<open>Server\<close> a session uses, with the package variable
  \<^verbatim>\<open>serverProtocolVersion\<close>; \<open>NewMilter\<close> is the handler the factory returns.
\<close>

record 'h Server =
  NewMilter :: 'h
  serverProtocolVersion :: uint32

record 'h milterSession =
  server :: "'h Server"
  actions :: uint32
  protocol :: uint32
  m_conn :: net_conn
  headers :: "MIMEHeader option"
  macros :: "(bytes \<rightharpoonup> bytes) option"
  backend :: 'h

definition newModifier :: "'h milterSession \<Rightarrow> Modifier" where
  "newModifier s = \<lparr>Macros = macros s, Headers = headers s\<rparr>"

text \<open>The packets a callback wrote through the modifier, in order; it alone sees the results.\<close>

definition emit :: "net_conn \<Rightarrow> Message list \<Rightarrow> net_conn" where
  "emit c msgs = fold (\<lambda>msg c'. snd (writePacket c' msg)) msgs c"

text \<open>\<^verbatim>\<open>return m.backend.X(..., newModifier(m))\<close> for a method returning a response.\<close>

definition call_backend ::
  "'h milterSession \<Rightarrow> (Response option, 'h) callback
     \<Rightarrow> Response option outcome \<times> 'h milterSession" where
  "call_backend m cb =
     ((if cb_error cb then Fail HandlerError else Return (cb_result cb)),
      m\<lparr>backend := cb_backend cb, m_conn := emit (m_conn m) (cb_packets cb)\<rparr>)"

text \<open>\<^verbatim>\<open>MIMEHeader.Add\<close> on a non-nil map.\<close>

definition MIMEHeader_Add ::
  "(bytes \<Rightarrow> bytes) \<Rightarrow> MIMEHeader \<Rightarrow> bytes \<Rightarrow> bytes \<Rightarrow> MIMEHeader" where
  "MIMEHeader_Add canon h key val =
     h(canon key \<mapsto> (case h (canon key) of None \<Rightarrow> [] | Some vs \<Rightarrow> vs) @ [val])"

text \<open>\<^verbatim>\<open>strings.Trim(s, "<>")\<close> and \<^verbatim>\<open>strings.TrimSuffix(s, "\x00")\<close>.\<close>

definition trim_angle :: "bytes \<Rightarrow> bytes" where
  "trim_angle s =
     rev (dropWhile (\<lambda>b. b = 0x3C \<or> b = 0x3E) (rev (dropWhile (\<lambda>b. b = 0x3C \<or> b = 0x3E) s)))"

definition trimSuffix_nul :: "bytes \<Rightarrow> bytes" where
  "trimSuffix_nul s = (if s \<noteq> [] \<and> last s = 0 then butlast s else s)"

text \<open>The loop of the \<^verbatim>\<open>CodeMacro\<close> case over a list of even length.\<close>

fun store_macros :: "(bytes \<rightharpoonup> bytes) \<Rightarrow> bytes list \<Rightarrow> (bytes \<rightharpoonup> bytes)" where
  "store_macros mp (k # v # rest) = store_macros (mp(k \<mapsto> v)) rest"
| "store_macros mp rest = mp"

text \<open>The map literal \<^verbatim>\<open>family\<close> of the \<^verbatim>\<open>CodeConn\<close> case; a missing key reads as \<^verbatim>\<open>""\<close>.\<close>

definition family :: "byte \<Rightarrow> bytes" where
  "family b =
     (if b = 0x55 then [0x75, 0x6E, 0x6B, 0x6E, 0x6F, 0x77, 0x6E] \<comment> \<open>'U': unknown\<close>
      else if b = 0x4C then [0x75, 0x6E, 0x69, 0x78] \<comment> \<open>'L': unix\<close>
      else if b = 0x34 then [0x74, 0x63, 0x70, 0x34] \<comment> \<open>'4': tcp4\<close>
      else if b = 0x36 then [0x74, 0x63, 0x70, 0x36] \<comment> \<open>'6': tcp6\<close>
      else [])"

definition be_uint16 :: "bytes \<Rightarrow> uint16" where
  "be_uint16 b = push_bit 8 (ucast (b ! 0)) OR ucast (b ! 1)"

text \<open>
  \<^verbatim>\<open>Process\<close>. The clearing of \<^verbatim>\<open>m.headers\<close> and \<^verbatim>\<open>m.macros\<close> in the Abort case is
  deferred in the source, so it takes effect after the callback has returned.
\<close>

definition Process ::
  "('h, 'ip) Milter \<Rightarrow> 'ip stdlib \<Rightarrow> 'h milterSession \<Rightarrow> Message
     \<Rightarrow> Response option outcome \<times> 'h milterSession" where
  "Process M lib m msg =
     (if Code msg = CodeAbort then
        (let cb = h_Abort M (backend m) (newModifier m);
             m' = m\<lparr>backend := cb_backend cb, m_conn := emit (m_conn m) (cb_packets cb)\<rparr>
         in ((if cb_error cb then Fail HandlerError else Return None),
             m'\<lparr>headers := None, macros := None\<rparr>))
      else if Code msg = CodeBody then
        call_backend m (h_BodyChunk M (backend m) (Data msg) (newModifier m))
      else if Code msg = CodeConn then
        (let hostname = readCString (Data msg) in
         if length (Data msg) < length hostname + 1 then (Panic, m)
         else
           (case drop (length hostname + 1) (Data msg) of
              [] \<Rightarrow> (Panic, m)
            | protocolFamily # data1 \<Rightarrow>
                (if protocolFamily = 0x34 \<or> protocolFamily = 0x36 then
                   (if length data1 < 2 then (Return (Some RespTempFail), m)
                    else
                      call_backend m
                        (h_Connect M (backend m) hostname (family protocolFamily)
                           (be_uint16 data1) (ParseIP lib (readCString (drop 2 data1)))
                           (newModifier m)))
                 else
                   call_backend m
                     (h_Connect M (backend m) hostname (family protocolFamily) 0
                        (ParseIP lib (readCString data1)) (newModifier m)))))
      else if Code msg = CodeMacro then
        (case Data msg of
           [] \<Rightarrow> (Panic, m\<lparr>macros := Some Map.empty\<rparr>)
         | cmd # rest \<Rightarrow>
             (let data = decodeCStrings rest;
                  data' = (if length data mod 2 = 1 then data @ [[]] else data)
              in (Return None, m\<lparr>macros := Some (store_macros Map.empty data')\<rparr>)))
      else if Code msg = CodeEOB then
        call_backend m (h_Body M (backend m) (newModifier m))
      else if Code msg = CodeHelo then
        call_backend m (h_Helo M (backend m) (trimSuffix_nul (Data msg)) (newModifier m))
      else if Code msg = CodeHeader then
        (let hs = (case headers m of None \<Rightarrow> Map.empty | Some h \<Rightarrow> h);
             m1 = m\<lparr>headers := Some hs\<rparr>;
             headerData = decodeCStrings (Data msg);
             headerData' = (if length headerData = 1 then headerData @ [[]] else headerData)
         in if length headerData' = 2 then
              (let m2 = m1\<lparr>headers :=
                          Some (MIMEHeader_Add (CanonicalMIMEHeaderKey lib) hs
                                  (headerData' ! 0) (headerData' ! 1))\<rparr>
               in call_backend m2
                    (h_Header M (backend m2) (headerData' ! 0) (headerData' ! 1)
                       (newModifier m2)))
            else (Return (Some RespContinue), m1))
      else if Code msg = CodeMail then
        call_backend m
          (h_MailFrom M (backend m) (trim_angle (readCString (Data msg))) (newModifier m))
      else if Code msg = CodeEOH then
        call_backend m (h_Headers M (backend m) (headers m) (newModifier m))
      else if Code msg = CodeOptNeg then
        (Return (Some (NewResponse CodeOptNeg
                         (put_uint32 (serverProtocolVersion (server m))
                            @ put_uint32 (actions m) @ put_uint32 (protocol m)))), m)
      else if Code msg = CodeQuit then (Fail ErrCloseSession, m)
      else if Code msg = CodeRcpt then
        call_backend m
          (h_RcptTo M (backend m) (trim_angle (readCString (Data msg))) (newModifier m))
      else if Code msg = CodeData then (Return (Some RespContinue), m)
      else (Fail ErrCloseSession, m))"


text \<open>
  One turn of the loop of \<^verbatim>\<open>HandleMilterCommands\<close>: \<open>Return True\<close> goes round again,
  \<open>Return False\<close> is the \<^verbatim>\<open>return\<close> of the source.
\<close>

definition HandleMilterCommands_step ::
  "('h, 'ip) Milter \<Rightarrow> 'ip stdlib \<Rightarrow> 'h milterSession \<Rightarrow> bool outcome \<times> 'h milterSession" where
  "HandleMilterCommands_step M lib m =
     (let r = readPacket (m_conn m); m1 = m\<lparr>m_conn := snd r\<rparr> in
      case fst r of
        Panic \<Rightarrow> (Panic, m1)
      | Fail e \<Rightarrow> (Return False, m1)
      | Return msg \<Rightarrow>
          (let pr = Process M lib m1 msg; m2 = snd pr in
           case fst pr of
             Panic \<Rightarrow> (Panic, m2)
           | Fail e \<Rightarrow> (Return False, m2)
           | Return None \<Rightarrow> (Return True, m2)
           | Return (Some resp) \<Rightarrow>
               (case writePacket (m_conn m2) (Response_msg resp) of
                  (Some e, c) \<Rightarrow> (Return False, m2\<lparr>m_conn := c\<rparr>)
                | (None, c) \<Rightarrow>
                    (Return True,
                     if \<not> Continue resp
                     then m2\<lparr>m_conn := c, backend := NewMilter (server m2)\<rparr>
                     else m2\<lparr>m_conn := c\<rparr>))))"

lemma rx_conn_Write [simp]: "rx (snd (conn_Write c bs)) = rx c"
  by (simp add: conn_Write_def split: list.splits)

lemma rx_writePacket [simp]: "rx (snd (writePacket c msg)) = rx c"
proof -
  have "snd (writePacket c msg) = snd (conn_Write c (encodePacket msg))"
    by (simp add: writePacket_def split: prod.splits bool.splits)
  then show ?thesis by simp
qed

lemma rx_emit [simp]: "rx (emit c msgs) = rx c"
  unfolding emit_def by (induction msgs arbitrary: c) simp_all

lemma rx_call_backend [simp]: "rx (m_conn (snd (call_backend m cb))) = rx (m_conn m)"
  by (simp add: call_backend_def)

lemma rx_Process [simp]: "rx (m_conn (snd (Process M lib m msg))) = rx (m_conn m)"
  unfolding Process_def Let_def
  by (simp split: list.split)

lemma HandleMilterCommands_step_consumes:
  assumes "fst (HandleMilterCommands_step M lib m) = Return True"
  shows "length (rx (m_conn (snd (HandleMilterCommands_step M lib m)))) < length (rx (m_conn m))"
proof (cases "fst (readPacket (m_conn m))")
  case (Return msg)
  from readPacket_consumes [OF this]
  have less: "length (rx (snd (readPacket (m_conn m)))) < length (rx (m_conn m))" .
  define m1 where "m1 = m\<lparr>m_conn := snd (readPacket (m_conn m))\<rparr>"
  have m1: "rx (m_conn (snd (Process M lib m1 msg))) = rx (snd (readPacket (m_conn m)))"
    by (simp add: m1_def)
  define pr where "pr = Process M lib m1 msg"
  have "rx (m_conn (snd (HandleMilterCommands_step M lib m))) = rx (m_conn (snd pr))"
  proof (cases "fst pr")
    case (Return ro)
    show ?thesis
    proof (cases ro)
      case None
      with Return \<open>fst (readPacket (m_conn m)) = Return msg\<close> show ?thesis
        by (simp add: HandleMilterCommands_step_def Let_def m1_def [symmetric] pr_def [symmetric])
    next
      case (Some resp)
      have w: "rx (snd (writePacket (m_conn (snd pr)) (Response_msg resp))) = rx (m_conn (snd pr))"
        by simp
      obtain e c where ec: "writePacket (m_conn (snd pr)) (Response_msg resp) = (e, c)"
        by (cases "writePacket (m_conn (snd pr)) (Response_msg resp)")
      with w have "rx c = rx (m_conn (snd pr))" by simp
      with Some Return ec \<open>fst (readPacket (m_conn m)) = Return msg\<close> show ?thesis
        by (cases e)
           (simp_all add: HandleMilterCommands_step_def Let_def m1_def [symmetric] pr_def [symmetric])
    qed
  next
    case (Fail e)
    with \<open>fst (readPacket (m_conn m)) = Return msg\<close> show ?thesis
      by (simp add: HandleMilterCommands_step_def Let_def m1_def [symmetric] pr_def [symmetric])
  next
    case Panic
    with \<open>fst (readPacket (m_conn m)) = Return msg\<close> show ?thesis
      by (simp add: HandleMilterCommands_step_def Let_def m1_def [symmetric] pr_def [symmetric])
  qed
  with m1 less show ?thesis by (simp add: pr_def)
next
  case (Fail e)
  with assms show ?thesis by (simp add: HandleMilterCommands_step_def Let_def)
next
  case Panic
  with assms show ?thesis by (simp add: HandleMilterCommands_step_def Let_def)
qed

text \<open>
  \<^verbatim>\<open>HandleMilterCommands\<close>; the deferred \<^verbatim>\<open>m.conn.Close()\<close> runs on every way out.
\<close>

function HandleMilterCommands ::
  "('h, 'ip) Milter \<Rightarrow> 'ip stdlib \<Rightarrow> 'h milterSession \<Rightarrow> unit outcome \<times> 'h milterSession" where
  "HandleMilterCommands M lib m =
     (let st = HandleMilterCommands_step M lib m; m' = snd st in
      case fst st of
        Return again \<Rightarrow>
          (if again then HandleMilterCommands M lib m'
           else (Return (), m'\<lparr>m_conn := snd (conn_Close (m_conn m'))\<rparr>))
      | Fail e \<Rightarrow> (Fail e, m'\<lparr>m_conn := snd (conn_Close (m_conn m'))\<rparr>)
      | Panic \<Rightarrow> (Panic, m'\<lparr>m_conn := snd (conn_Close (m_conn m'))\<rparr>))"
  by pat_completeness auto
termination
  by (relation "measure (\<lambda>(M, lib, m). length (rx (m_conn m)))")
     (auto dest: HandleMilterCommands_step_consumes)

declare HandleMilterCommands.simps [simp del]


section \<open>A recording handler\<close>

text \<open>A callback that returns a response and no error and sends nothing.\<close>

definition respond :: "Response \<Rightarrow> 'h \<Rightarrow> (Response option, 'h) callback" where
  "respond r h = \<lparr>cb_result = Some r, cb_error = False, cb_backend = h, cb_packets = []\<rparr>"

text \<open>
  A handler in the manner of the tests' \<^verbatim>\<open>MockMilter\<close>: it continues on every callback and
  keeps what it was called with: the fields given to \<^verbatim>\<open>Header\<close>, the collection given to
  \<^verbatim>\<open>Headers\<close>, and the modifier given to \<^verbatim>\<open>Abort\<close>.
\<close>

record MockState =
  mock_fields :: "(bytes \<times> bytes) list"
  mock_Hdr :: "MIMEHeader option"
  mock_abort :: "Modifier option"

definition MockMilter :: "(MockState, bytes) Milter" where
  "MockMilter =
     \<lparr>h_Connect = (\<lambda>h host fam port addr md. respond RespContinue h),
      h_Helo = (\<lambda>h name md. respond RespContinue h),
      h_MailFrom = (\<lambda>h from md. respond RespContinue h),
      h_RcptTo = (\<lambda>h rcptTo md. respond RespContinue h),
      h_Header = (\<lambda>h name val md.
         respond RespContinue (h\<lparr>mock_fields := mock_fields h @ [(name, val)]\<rparr>)),
      h_Headers = (\<lambda>h hdrs md. respond RespContinue (h\<lparr>mock_Hdr := hdrs\<rparr>)),
      h_BodyChunk = (\<lambda>h chunk md. respond RespContinue h),
      h_Body = (\<lambda>h md. respond RespContinue h),
      h_Abort = (\<lambda>h md.
         \<lparr>cb_result = (), cb_error = False, cb_backend = h\<lparr>mock_abort := Some md\<rparr>,
          cb_packets = []\<rparr>)\<rparr>"

text \<open>The handler's state before any callback.\<close>

definition mock0 :: MockState where
  "mock0 = \<lparr>mock_fields = [], mock_Hdr = None, mock_abort = None\<rparr>"

text \<open>A library whose key canonicalisation leaves keys alone, as the real one does on \<^verbatim>\<open>X\<close>.\<close>

definition plainlib :: "bytes stdlib" where
  "plainlib = \<lparr>ParseIP = (\<lambda>a. a), CanonicalMIMEHeaderKey = (\<lambda>k. k)\<rparr>"

text \<open>A session as \<^verbatim>\<open>Serve\<close> creates it, on a connection with nothing to read.\<close>

definition fresh_session :: "MockState milterSession" where
  "fresh_session =
     \<lparr>server = \<lparr>NewMilter = mock0, serverProtocolVersion = 2\<rparr>, actions = 0, protocol = 0,
      m_conn = \<lparr>rx = [], tx = [], wr = [], closed = False\<rparr>,
      headers = None, macros = None, backend = mock0\<rparr>"

section \<open>The claims\<close>

lemmas frame_defs =
  writePacket_def conn_Write_def encodePacket_def put_uint32_def
  readPacket_def conn_ReadFull_def be_uint32_def

subsection \<open>C-string codec\<close>

lemma foldl_appendCString:
  "foldl appendCString acc ss = acc @ concat (map (\<lambda>s. s @ [0]) ss)"
  by (induction ss arbitrary: acc) (simp_all add: appendCString_def)

lemma encodeCStrings_concat: "encodeCStrings ss = concat (map (\<lambda>s. s @ [0]) ss)"
  by (simp add: encodeCStrings_def foldl_appendCString)

lemma split_nul_not_Nil [simp]: "split_nul s \<noteq> []"
  by (induction s) simp_all

lemma split_nul_nul_free: "nul_free s \<Longrightarrow> split_nul s = [s]"
  by (induction s) (auto simp: nul_free_def)

lemma split_nul_append:
  "nul_free s \<Longrightarrow> split_nul (s @ 0 # t) = s # split_nul t"
  by (induction s) (auto simp: nul_free_def)

lemma split_join_nul:
  "ss \<noteq> [] \<Longrightarrow> list_all nul_free ss \<Longrightarrow> split_nul (join_nul ss) = ss"
  by (induction ss rule: join_nul.induct) (simp_all add: split_nul_nul_free split_nul_append)

lemma encode_join_nul: "ss \<noteq> [] \<Longrightarrow> concat (map (\<lambda>s. s @ [0]) ss) = join_nul ss @ [0]"
  by (induction ss rule: join_nul.induct) simp_all

lemma hd_join_nul:
  "ss \<noteq> [] \<Longrightarrow> hd ss \<noteq> [] \<Longrightarrow> join_nul ss \<noteq> [] \<and> hd (join_nul ss) = hd (hd ss)"
  by (induction ss rule: join_nul.induct) simp_all

lemma last_join_nul:
  "ss \<noteq> [] \<Longrightarrow> last ss \<noteq> [] \<Longrightarrow> join_nul ss \<noteq> [] \<and> last (join_nul ss) = last (last ss)"
  by (induction ss rule: join_nul.induct) simp_all

lemma trim_nul_terminated:
  assumes "s \<noteq> []" "hd s \<noteq> 0" "last s \<noteq> 0"
  shows "trim_nul (s @ [0]) = s"
proof -
  from assms obtain a t where s: "s = a # t" and a: "a \<noteq> 0"
    by (cases s) auto
  from assms obtain u z where s': "s = u @ [z]" and z: "z \<noteq> 0"
    by (cases s rule: rev_cases) auto
  have "dropWhile (\<lambda>b. b = 0) (s @ [0]) = s @ [0]"
    using a by (simp add: s)
  moreover have "dropWhile (\<lambda>b. b = 0) (rev (s @ [0])) = rev s"
    using z by (simp add: s')
  ultimately show ?thesis by (simp add: trim_nul_def)
qed

text \<open>
  The round trip holds for the empty sequence, for the single empty string, and for every
  sequence whose first and last strings are non-empty.
\<close>

lemma cstring_roundtrip_if:
  assumes "list_all nul_free ss"
    and "ss = [] \<or> ss = [[]] \<or> (hd ss \<noteq> [] \<and> last ss \<noteq> [])"
  shows "decodeCStrings (encodeCStrings ss) = ss"
proof (cases "ss = [] \<or> ss = [[]]")
  case True
  then show ?thesis
    by (auto simp: decodeCStrings_def encodeCStrings_def appendCString_def trim_nul_def)
next
  case nontrivial: False
  then have ne: "ss \<noteq> []" by simp
  from nontrivial assms(2) have ends: "hd ss \<noteq> []" "last ss \<noteq> []" by simp_all
  from ne assms(1) have "nul_free (hd ss)" "nul_free (last ss)"
    by (simp_all add: list_all_iff)
  with ends have "hd (hd ss) \<noteq> 0" "last (last ss) \<noteq> 0"
    unfolding nul_free_def by (metis hd_in_set, metis last_in_set)
  with ne ends have j: "join_nul ss \<noteq> []" "hd (join_nul ss) \<noteq> 0" "last (join_nul ss) \<noteq> 0"
    using hd_join_nul [of ss] last_join_nul [of ss] by simp_all
  have enc: "encodeCStrings ss = join_nul ss @ [0]"
    using ne by (simp add: encodeCStrings_concat encode_join_nul)
  have "decodeCStrings (encodeCStrings ss) = split_nul (trim_nul (join_nul ss @ [0]))"
    by (simp add: decodeCStrings_def enc)
  also have "\<dots> = split_nul (join_nul ss)"
    using j by (simp add: trim_nul_terminated)
  also have "\<dots> = ss"
    using ne assms(1) by (rule split_join_nul)
  finally show ?thesis .
qed

text \<open>
  It holds for no other sequence. The decoder returns one string more than its trimmed input
  has NUL bytes, the encoding has one NUL byte per string, so the round trip needs the trimming
  to remove exactly one NUL byte.
\<close>

lemma length_split_nul: "length (split_nul t) = Suc (length (filter (\<lambda>b. b = 0) t))"
  by (induction t) (simp_all add: Suc_pred)

lemma filter_nul_free: "nul_free s \<Longrightarrow> filter (\<lambda>b. b = 0) s = []"
  by (induction s) (auto simp: nul_free_def)

lemma count_nul_encode:
  "list_all nul_free ss \<Longrightarrow> length (filter (\<lambda>b. b = 0) (encodeCStrings ss)) = length ss"
  unfolding encodeCStrings_concat by (induction ss) (simp_all add: filter_nul_free)

lemma count_dropWhile:
  "length (filter P (dropWhile P t)) + length (takeWhile P t) = length (filter P t)"
  by (induction t) simp_all

lemma count_trim_nul:
  "length (filter (\<lambda>b. b = 0) (trim_nul e))
     + length (takeWhile (\<lambda>b. b = 0) (rev (dropWhile (\<lambda>b. b = 0) e)))
     + length (takeWhile (\<lambda>b. b = 0) e)
   = length (filter (\<lambda>b. b = 0) e)"
proof -
  let ?Z = "\<lambda>b :: byte. b = 0"
  let ?d = "dropWhile ?Z e"
  have "length (filter ?Z (trim_nul e)) = length (filter ?Z (dropWhile ?Z (rev ?d)))"
    by (simp add: trim_nul_def flip: rev_filter)
  moreover have "length (filter ?Z (dropWhile ?Z (rev ?d))) + length (takeWhile ?Z (rev ?d))
      = length (filter ?Z ?d)"
    using count_dropWhile [of ?Z "rev ?d"] by (simp flip: rev_filter)
  moreover have "length (filter ?Z ?d) + length (takeWhile ?Z e) = length (filter ?Z e)"
    by (rule count_dropWhile)
  ultimately show ?thesis by simp
qed

lemma cstring_roundtrip_only_if:
  assumes nf: "list_all nul_free ss" and rt: "decodeCStrings (encodeCStrings ss) = ss"
  shows "ss = [] \<or> ss = [[]] \<or> (hd ss \<noteq> [] \<and> last ss \<noteq> [])"
proof (cases "ss = []")
  case True
  then show ?thesis by simp
next
  case ne: False
  let ?Z = "\<lambda>b :: byte. b = 0"
  define e where "e = encodeCStrings ss"
  define d where "d = dropWhile ?Z e"
  from ne obtain ss' l where ss: "ss = ss' @ [l]" by (cases ss rule: rev_cases) auto
  have e_last: "e = encodeCStrings ss' @ l @ [0]"
    by (simp add: e_def ss encodeCStrings_concat)
  then have e_ne: "e \<noteq> []" by simp
  from rt e_ne have "length (split_nul (trim_nul e)) = length ss"
    by (simp add: decodeCStrings_def e_def)
  then have "Suc (length (filter ?Z (trim_nul e))) = length (filter ?Z e)"
    using nf by (simp add: length_split_nul count_nul_encode e_def)
  with count_trim_nul [of e]
  have one: "length (takeWhile ?Z (rev d)) + length (takeWhile ?Z e) = 1"
    by (simp add: d_def)
  show ?thesis
  proof (cases "d = []")
    case True
    then have "takeWhile ?Z e = e" by (simp add: d_def dropWhile_eq_Nil_conv)
    with one True have "length e = 1" by simp
    with e_last have "l = []" "encodeCStrings ss' = []" by (cases l; simp)+
    then have "ss' = []"
      by (cases ss') (simp_all add: encodeCStrings_concat)
    with \<open>l = []\<close> ss show ?thesis by simp
  next
    case False
    have "last d = last e"
      using False by (metis d_def last_appendR takeWhile_dropWhile_id)
    also have "\<dots> = 0" by (simp add: e_last)
    finally have "hd (rev d) = 0" using False by (simp add: hd_rev)
    with False have "takeWhile ?Z (rev d) \<noteq> []" by (cases "rev d") auto
    with one have lead: "takeWhile ?Z e = []" and tr: "length (takeWhile ?Z (rev d)) = 1"
      by (cases "takeWhile ?Z (rev d)"; simp)+
    from lead have de: "d = e" by (simp add: d_def) (metis takeWhile_dropWhile_id append_Nil)
    from lead e_ne have hd_e: "hd e \<noteq> 0" by (cases e) (auto split: if_splits)
    have "hd ss \<noteq> []"
    proof
      assume "hd ss = []"
      with ne have "hd e = 0" by (cases ss) (simp_all add: e_def encodeCStrings_concat)
      with hd_e show False by simp
    qed
    moreover have "last ss \<noteq> []"
    proof
      assume "last ss = []"
      with ss have l: "l = []" by simp
      from \<open>hd ss \<noteq> []\<close> ss l have "ss' \<noteq> []" by (cases ss') auto
      then obtain ss'' k where "ss' = ss'' @ [k]" by (cases ss' rule: rev_cases) auto
      then have "rev e = 0 # 0 # rev (encodeCStrings ss'' @ k)"
        by (simp add: e_last l encodeCStrings_concat)
      then have "length (takeWhile ?Z (rev e)) \<ge> 2" by simp
      with tr de show False by simp
    qed
    ultimately show ?thesis by simp
  qed
qed

text \<open>
  Claim C5, as amended. For every sequence \<open>ss\<close> of strings containing no NUL byte,
  decoding the concatenation of the NUL-terminated encodings of its elements yields \<open>ss\<close>
  again if and only if \<open>ss\<close> is empty, or is the single empty string, or has a non-empty
  first and a non-empty last element; and decoding the empty byte sequence yields the empty
  sequence. (Empty strings between the first and the last element survive;
  \<^verbatim>\<open>strings.Trim\<close> removes the empty strings at either end.)
\<close>

theorem C5_cstring_roundtrip_amended:
  assumes "list_all nul_free ss"
  shows "(decodeCStrings (encodeCStrings ss) = ss
            \<longleftrightarrow> ss = [] \<or> ss = [[]] \<or> (hd ss \<noteq> [] \<and> last ss \<noteq> []))
         \<and> decodeCStrings [] = []"
  using assms cstring_roundtrip_if [of ss] cstring_roundtrip_only_if [of ss]
  by (auto simp: decodeCStrings_def)

text \<open>
  Witness for C5 as amended: three strings, the middle one empty.
\<close>

theorem C5_cstring_roundtrip_amended_witness:
  "list_all nul_free [[0x61, 0x62], [], [0x63]]
   \<and> decodeCStrings (encodeCStrings [[0x61, 0x62], [], [0x63]]) = [[0x61, 0x62], [], [0x63]]"
  using C5_cstring_roundtrip_amended [of "[[0x61, 0x62], [], [0x63]]"]
  by (simp add: nul_free_def)

text \<open>
  Counterexample to C5 as stated: the NUL-free sequence \<^verbatim>\<open>["a", ""]\<close> encodes to
  \<^verbatim>\<open>a\x00\x00\<close>, which decodes to \<^verbatim>\<open>["a"]\<close>.
\<close>

theorem C5_cstring_roundtrip_counterexample:
  "list_all nul_free [[0x61], []]
   \<and> decodeCStrings (encodeCStrings [[0x61], []]) \<noteq> [[0x61], []]"
  by (simp add: nul_free_def decodeCStrings_def encodeCStrings_def appendCString_def trim_nul_def)

text \<open>
  Claim C2 at the input where the code departs from it: on the stream \<^verbatim>\<open>00 00 00 00\<close>
  (length prefix 0) \<^verbatim>\<open>readPacket\<close> allocates an empty buffer, \<^verbatim>\<open>io.ReadFull\<close> succeeds
  and \<^verbatim>\<open>data[0]\<close> panics: no error is returned.
\<close>

theorem C2_readPacket_zero_length:
  "readPacket \<lparr>rx = [0, 0, 0, 0], tx = [], wr = [], closed = False\<rparr>
     = (Panic, \<lparr>rx = [], tx = [], wr = [], closed = False\<rparr>)"
  by (simp add: frame_defs)

text \<open>
  The parts of C2 that hold: a short read and a closed connection give an \<open>IOError\<close>.
  A zero length prefix panics on every open connection, and \<^verbatim>\<open>readPacket\<close> has no
  \<open>ProtocolError\<close> at all.
\<close>

lemma readPacket_short_read:
  "length (rx c) < 4 \<Longrightarrow> fst (readPacket c) = Fail IOError"
  by (simp add: readPacket_def conn_ReadFull_def)

lemma readPacket_closed: "closed c \<Longrightarrow> fst (readPacket c) = Fail IOError"
  by (simp add: readPacket_def conn_ReadFull_def)

lemma readPacket_zero_length_panics:
  "\<not> closed c \<Longrightarrow> 4 \<le> length (rx c) \<Longrightarrow> be_uint32 (take 4 (rx c)) = 0
     \<Longrightarrow> fst (readPacket c) = Panic"
  by (simp add: readPacket_def conn_ReadFull_def)

lemma readPacket_short_body:
  "\<not> closed c \<Longrightarrow> 4 \<le> length (rx c)
     \<Longrightarrow> length (rx c) - 4 < unat (be_uint32 (take 4 (rx c)))
     \<Longrightarrow> fst (readPacket c) = Fail IOError"
  by (simp add: readPacket_def conn_ReadFull_def)

lemma readPacket_Panic_iff:
  "fst (readPacket c) = Panic
     \<longleftrightarrow> \<not> closed c \<and> 4 \<le> length (rx c) \<and> be_uint32 (take 4 (rx c)) = 0"
  by (auto simp: readPacket_def conn_ReadFull_def Let_def unat_eq_0 split: list.splits if_splits)

lemma readPacket_never_ProtocolError: "fst (readPacket c) \<noteq> Fail ProtocolError"
  by (auto simp: readPacket_def conn_ReadFull_def Let_def split: list.splits)

text \<open>
  Claim C1 at the input where the latest \<^verbatim>\<open>negotiate\<close> departs from it: the client offers
  action mask 1 and protocol mask 0, the milter answers version 2 with action mask 3 and
  protocol mask \<^verbatim>\<open>0x10\<close>. The session stores the milter's masks as they are, which are not
  the bitwise AND with the offered masks.
\<close>

theorem C1_negotiate_stores_milter_masks:
  "negotiate
     \<lparr>conn = \<lparr>rx = [0, 0, 0, 13, CodeOptNeg, 0, 0, 0, 2, 0, 0, 0, 3, 0, 0, 0, 0x10],
               tx = [], wr = [], closed = False\<rparr>,
      ActionOpts = 0, ProtocolOpts = 0, needAbort = False\<rparr> 1 0
   = (Return (),
      \<lparr>conn = \<lparr>rx = [], tx = [0, 0, 0, 13, CodeOptNeg, 0, 0, 0, 2, 0, 0, 0, 1, 0, 0, 0, 0],
               wr = [], closed = False\<rparr>,
       ActionOpts = 3, ProtocolOpts = 0x10, needAbort = True\<rparr>)
   \<and> (3 :: uint32) \<noteq> 1 AND 3 \<and> (0x10 :: uint32) \<noteq> 0 AND 0x10"
  by (simp add: negotiate_def frame_defs Let_def)

text \<open>
  The answer in that input is what this library's own server sends when it is configured with
  action mask 3 and protocol mask \<^verbatim>\<open>0x10\<close>: \<^verbatim>\<open>Process\<close> ignores the request and answers
  with the server's masks.
\<close>

lemma server_OptNeg_answer:
  "fst (Process MockMilter plainlib (fresh_session\<lparr>actions := 3, protocol := 0x10\<rparr>)
          \<lparr>Code = CodeOptNeg, Data = d\<rparr>)
     = Return (Some (NewResponse CodeOptNeg [0, 0, 0, 2, 0, 0, 0, 3, 0, 0, 0, 0x10]))
   \<and> encodePacket (Response_msg (NewResponse CodeOptNeg [0, 0, 0, 2, 0, 0, 0, 3, 0, 0, 0, 0x10]))
     = [0, 0, 0, 13, CodeOptNeg, 0, 0, 0, 2, 0, 0, 0, 3, 0, 0, 0, 0x10]"
  by (simp add: Process_def fresh_session_def NewResponse_def encodePacket_def put_uint32_def)

text \<open>
  The earlier \<^verbatim>\<open>negotiate\<close> does mask the milter's answer: its effective masks are
  bitwise subsets of the offered ones.
\<close>

lemma negotiate_earlier_subset:
  assumes "fst (negotiate_earlier s a p) = Return ()"
  shows "ActionOpts (snd (negotiate_earlier s a p)) AND a = ActionOpts (snd (negotiate_earlier s a p))
       \<and> ProtocolOpts (snd (negotiate_earlier s a p)) AND p
           = ProtocolOpts (snd (negotiate_earlier s a p))"
  using assms
  by (auto simp: negotiate_earlier_def Let_def ac_simps
           split: prod.splits option.splits outcome.splits if_splits)



subsection \<open>Framing round trip\<close>

text \<open>
  What \<^verbatim>\<open>writePacket\<close> sends, \<^verbatim>\<open>readPacket\<close> reads back as the same packet, for every
  payload of less than \<open>2 ^ 32 - 1\<close> bytes.
\<close>

lemma be_put_uint32: "be_uint32 (put_uint32 v) = v"
proof (rule bit_word_eqI)
  fix n :: nat
  assume "n < LENGTH(32)"
  then have n: "n < 32" by simp
  consider "n < 8" | "8 \<le> n" "n < 16" | "16 \<le> n" "n < 24" | "24 \<le> n" "n < 32"
    using n by linarith
  then show "bit (be_uint32 (put_uint32 v)) n = bit v n"
  proof cases
    case 1
    then show ?thesis by (simp add: be_uint32_def put_uint32_def bit_simps)
  next
    case 2
    then show ?thesis by (auto simp: be_uint32_def put_uint32_def bit_simps)
  next
    case 3
    then show ?thesis by (auto simp: be_uint32_def put_uint32_def bit_simps)
  next
    case 4
    then show ?thesis by (auto simp: be_uint32_def put_uint32_def bit_simps)
  qed
qed

lemma length_put_uint32 [simp]: "length (put_uint32 v) = 4"
  by (simp add: put_uint32_def)

lemma readPacket_encodePacket:
  assumes "\<not> closed c" and "length (Data msg) + 1 < 2 ^ 32"
  shows "readPacket (c\<lparr>rx := encodePacket msg @ rest\<rparr>) = (Return msg, c\<lparr>rx := rest\<rparr>)"
proof -
  define len :: uint32 where "len = of_nat (length (Data msg) + 1)"
  have u: "unat len = Suc (length (Data msg))"
    using assms(2) by (intro of_nat_inverse) (simp_all add: len_def)
  have e: "encodePacket msg = put_uint32 len @ Code msg # Data msg"
    by (simp add: encodePacket_def len_def)
  show ?thesis
    using assms(1) unfolding e
    by (simp add: readPacket_def conn_ReadFull_def be_put_uint32 u Let_def)
qed

subsection \<open>Client: body chunks and close\<close>

text \<open>
  Reading does not touch what has been written; a write the transport accepts appends the
  packet's bytes.
\<close>

lemma tx_readPacket [simp]: "tx (snd (readPacket c)) = tx c"
  by (simp add: readPacket_def conn_ReadFull_def Let_def split: list.split)

lemma tx_readAction [simp]: "tx (conn (snd (readAction s))) = tx (conn s)"
proof (induction s rule: readAction.induct)
  case (1 s)
  show ?case
  proof (cases "fst (readPacket (conn s))")
    case (Return msg)
    with 1 show ?thesis
      by (subst readAction.simps) (simp add: Let_def)
  next
    case (Fail e)
    then show ?thesis by (subst readAction.simps) (simp add: Let_def)
  next
    case Panic
    then show ?thesis by (subst readAction.simps) (simp add: Let_def)
  qed
qed

lemma writePacket_writable:
  "writable c (Suc n) \<Longrightarrow>
     fst (writePacket c msg) = None
     \<and> tx (snd (writePacket c msg)) = tx c @ encodePacket msg
     \<and> closed (snd (writePacket c msg)) = closed c
     \<and> writable (snd (writePacket c msg)) n"
  by (cases "wr c") (auto simp: writable_def writePacket_def conn_Write_def)


text \<open>
  Claim C9. In \<^verbatim>\<open>BodyChunk\<close> the suppression check comes before the size check: for every
  chunk, of any length, if the negotiated protocol mask has the no-body bit set, the call returns
  the synthetic continue action and no error, and the session (its transport included) is left
  as it was, so nothing is written.
\<close>

theorem C9_NoBody_precedes_size_check:
  assumes "ProtocolOpts s AND OptNoBody \<noteq> 0"
  shows "BodyChunk s chunk = (Return continueAction, s)"
  using assms by (simp add: BodyChunk_def)

text \<open>
  Witness for C9: a chunk of 70000 bytes with the no-body bit set.
\<close>

theorem C9_NoBody_precedes_size_check_witness:
  "MaxBodyChunk < length (replicate 70000 (0x41 :: byte))
   \<and> BodyChunk \<lparr>conn = \<lparr>rx = [], tx = [], wr = [], closed = False\<rparr>,
                 ActionOpts = 0, ProtocolOpts = OptNoBody, needAbort = True\<rparr>
        (replicate 70000 0x41)
     = (Return \<lparr>act_Code = ActContinue, SMTPCode = 0, SMTPText = []\<rparr>,
        \<lparr>conn = \<lparr>rx = [], tx = [], wr = [], closed = False\<rparr>,
         ActionOpts = 0, ProtocolOpts = OptNoBody, needAbort = True\<rparr>)"
  using C9_NoBody_precedes_size_check
    [of "\<lparr>conn = \<lparr>rx = [], tx = [], wr = [], closed = False\<rparr>,
          ActionOpts = 0, ProtocolOpts = OptNoBody, needAbort = True\<rparr>" "replicate 70000 0x41"]
  by (simp add: continueAction_def)

text \<open>
  Claim C3, as amended. With body messages not suppressed (no-body bit clear): for every chunk
  longer than 65535 bytes \<^verbatim>\<open>BodyChunk\<close> fails with a \<open>UsageError\<close> and leaves the session and
  its transport untouched; for every chunk of at most 65535 bytes, on a transport that accepts
  the write, exactly one \<^verbatim>\<open>'B'\<close> packet carrying that chunk is appended to what was written:
  bytes that \<^verbatim>\<open>readPacket\<close> reads back as the packet with code \<^verbatim>\<open>'B'\<close> and that chunk as
  its payload, with nothing left over.
\<close>

theorem C3_BodyChunk_size_amended:
  assumes "ProtocolOpts s AND OptNoBody = 0"
  shows "(MaxBodyChunk < length chunk \<longrightarrow> BodyChunk s chunk = (Fail UsageError, s))
       \<and> (length chunk \<le> MaxBodyChunk \<longrightarrow> writable (conn s) 1 \<longrightarrow>
            tx (conn (snd (BodyChunk s chunk)))
              = tx (conn s) @ encodePacket \<lparr>Code = CodeBody, Data = chunk\<rparr>)
       \<and> (length chunk \<le> MaxBodyChunk \<longrightarrow>
            readPacket \<lparr>rx = encodePacket \<lparr>Code = CodeBody, Data = chunk\<rparr> @ rest,
                        tx = [], wr = [], closed = False\<rparr>
              = (Return \<lparr>Code = CodeBody, Data = chunk\<rparr>,
                 \<lparr>rx = rest, tx = [], wr = [], closed = False\<rparr>))"
proof (intro conjI impI)
  assume "MaxBodyChunk < length chunk"
  with assms show "BodyChunk s chunk = (Fail UsageError, s)"
    by (simp add: BodyChunk_def)
next
  assume len: "length chunk \<le> MaxBodyChunk" and w: "writable (conn s) 1"
  let ?msg = "\<lparr>Code = CodeBody, Data = chunk\<rparr>"
  from w have wp: "fst (writePacket (conn s) ?msg) = None"
    "tx (snd (writePacket (conn s) ?msg)) = tx (conn s) @ encodePacket ?msg"
    using writePacket_writable [of "conn s" 0 ?msg] by simp_all
  obtain c where c: "writePacket (conn s) ?msg = (None, c)"
    using wp(1) by (cases "writePacket (conn s) ?msg") simp
  with wp(2) have "tx c = tx (conn s) @ encodePacket ?msg" by simp
  with assms len c show "tx (conn (snd (BodyChunk s chunk))) = tx (conn s) @ encodePacket ?msg"
    by (simp add: BodyChunk_def)
next
  assume "length chunk \<le> MaxBodyChunk"
  then have "length (Data \<lparr>Code = CodeBody, Data = chunk\<rparr>) + 1 < 2 ^ 32" by simp
  from readPacket_encodePacket [OF _ this, of "\<lparr>rx = [], tx = [], wr = [], closed = False\<rparr>" rest]
  show "readPacket \<lparr>rx = encodePacket \<lparr>Code = CodeBody, Data = chunk\<rparr> @ rest,
                     tx = [], wr = [], closed = False\<rparr>
          = (Return \<lparr>Code = CodeBody, Data = chunk\<rparr>,
             \<lparr>rx = rest, tx = [], wr = [], closed = False\<rparr>)"
    by simp
qed

text \<open>
  Witness for C3 as amended: a chunk of 65536 bytes, and a three-byte chunk answered by
  continue.
\<close>

theorem C3_BodyChunk_size_amended_witness:
  "BodyChunk \<lparr>conn = \<lparr>rx = [], tx = [], wr = [], closed = False\<rparr>,
               ActionOpts = 0, ProtocolOpts = 0, needAbort = True\<rparr> (replicate 65536 0)
     = (Fail UsageError,
        \<lparr>conn = \<lparr>rx = [], tx = [], wr = [], closed = False\<rparr>,
         ActionOpts = 0, ProtocolOpts = 0, needAbort = True\<rparr>)
   \<and> tx (conn (snd (BodyChunk
          \<lparr>conn = \<lparr>rx = [0, 0, 0, 1, ActContinue], tx = [], wr = [], closed = False\<rparr>,
           ActionOpts = 0, ProtocolOpts = 0, needAbort = True\<rparr> [7, 8, 9])))
     = [0, 0, 0, 4, CodeBody, 7, 8, 9]"
  using C3_BodyChunk_size_amended
    [of "\<lparr>conn = \<lparr>rx = [], tx = [], wr = [], closed = False\<rparr>,
          ActionOpts = 0, ProtocolOpts = 0, needAbort = True\<rparr>" "replicate 65536 0"]
    C3_BodyChunk_size_amended
    [of "\<lparr>conn = \<lparr>rx = [0, 0, 0, 1, ActContinue], tx = [], wr = [], closed = False\<rparr>,
          ActionOpts = 0, ProtocolOpts = 0, needAbort = True\<rparr>" "[7, 8, 9]"]
  by (simp add: writable_def encodePacket_def put_uint32_def)

text \<open>
  Counterexample to C3 as stated: with the no-body bit set, a chunk of 65536 bytes does not
  fail with a \<open>UsageError\<close>; the call returns the synthetic continue action (claim C9).
\<close>

theorem C3_BodyChunk_size_counterexample:
  "MaxBodyChunk < length (replicate 65536 (0 :: byte))
   \<and> BodyChunk \<lparr>conn = \<lparr>rx = [], tx = [], wr = [], closed = False\<rparr>,
                 ActionOpts = 0, ProtocolOpts = OptNoBody, needAbort = True\<rparr>
        (replicate 65536 0)
     = (Return continueAction,
        \<lparr>conn = \<lparr>rx = [], tx = [], wr = [], closed = False\<rparr>,
         ActionOpts = 0, ProtocolOpts = OptNoBody, needAbort = True\<rparr>)
   \<and> Return continueAction \<noteq> (Fail UsageError :: Action outcome)"
  by (simp add: BodyChunk_def)




subsection \<open>Client: the abort flag and the skip action\<close>

text \<open>
  The abort-required-on-close flag: set by a successful negotiation; after \<^verbatim>\<open>readAction\<close>
  has returned an action it is still set exactly if it was set and the action is continue
  (progress packets are skipped); \<^verbatim>\<open>readModifyActs\<close> and \<^verbatim>\<open>End\<close> never change it.
  \<^verbatim>\<open>parseAction\<close> accepts the codes a, c, d, r, t and y only, so no call returns a skip
  action.
\<close>

lemma negotiate_sets_needAbort:
  "fst (negotiate s a p) = Return () \<Longrightarrow> needAbort (snd (negotiate s a p))"
  by (auto simp: negotiate_def Let_def
           split: prod.splits option.splits outcome.splits if_splits)

lemma parseAction_Code:
  "parseAction msg = Return act \<Longrightarrow>
     act_Code act = Code msg
     \<and> (Code msg = ActAccept \<or> Code msg = ActContinue \<or> Code msg = ActDiscard
        \<or> Code msg = ActReject \<or> Code msg = ActTempFail \<or> Code msg = ActReplyCode)"
  by (auto simp: parseAction_def Let_def split: if_splits option.splits)

lemma readAction_needAbort:
  "fst (readAction s) = Return act \<Longrightarrow>
     needAbort (snd (readAction s)) = (needAbort s \<and> act_Code act = ActContinue)"
proof (induction s rule: readAction.induct)
  case (1 s)
  show ?case
  proof (cases "fst (readPacket (conn s))")
    case (Return msg)
    show ?thesis
    proof (cases "Code msg = 0x70")
      case True
      with Return 1 show ?thesis
        by (subst (asm) (2) readAction.simps, subst readAction.simps) (simp add: Let_def)
    next
      case False
      with Return "1.prems" show ?thesis
        by (subst (asm) readAction.simps, subst readAction.simps)
           (auto simp: Let_def dest: parseAction_Code)
    qed
  next
    case (Fail e)
    with "1.prems" show ?thesis by (subst (asm) readAction.simps) (simp add: Let_def)
  next
    case Panic
    with "1.prems" show ?thesis by (subst (asm) readAction.simps) (simp add: Let_def)
  qed
qed

lemma readAction_never_skip:
  "fst (readAction s) = Return act \<Longrightarrow> act_Code act \<noteq> ActSkip"
proof (induction s rule: readAction.induct)
  case (1 s)
  show ?case
  proof (cases "fst (readPacket (conn s))")
    case (Return msg)
    show ?thesis
    proof (cases "Code msg = 0x70")
      case True
      with Return 1 show ?thesis
        by (subst (asm) (2) readAction.simps) (simp add: Let_def)
    next
      case False
      with Return "1.prems" show ?thesis
        by (subst (asm) readAction.simps) (auto simp: Let_def dest: parseAction_Code)
    qed
  next
    case (Fail e)
    with "1.prems" show ?thesis by (subst (asm) readAction.simps) (simp add: Let_def)
  next
    case Panic
    with "1.prems" show ?thesis by (subst (asm) readAction.simps) (simp add: Let_def)
  qed
qed

lemma BodyChunk_never_skip:
  "fst (BodyChunk s chunk) = Return act \<Longrightarrow> act_Code act \<noteq> ActSkip"
  by (auto simp: BodyChunk_def continueAction_def
           split: if_splits prod.splits option.splits dest: readAction_never_skip)

lemma readModifyActs_needAbort:
  "needAbort (snd (readModifyActs s acts)) = needAbort s"
proof (induction s acts rule: readModifyActs.induct)
  case (1 s acts)
  show ?case
  proof (cases "fst (readPacket (conn s))")
    case (Return msg)
    show ?thesis
    proof (cases "Code msg = 0x70")
      case True
      with Return 1 show ?thesis
        by (subst readModifyActs.simps) (simp add: Let_def)
    next
      case notp: False
      show ?thesis
      proof (cases "isModifyActCode (Code msg)")
        case True
        with notp Return 1 show ?thesis
          by (subst readModifyActs.simps) (simp add: Let_def split: outcome.split)
      next
        case False
        with notp Return show ?thesis
          by (subst readModifyActs.simps) (simp add: Let_def split: outcome.split)
      qed
    qed
  next
    case (Fail e)
    then show ?thesis by (subst readModifyActs.simps) (simp add: Let_def)
  next
    case Panic
    then show ?thesis by (subst readModifyActs.simps) (simp add: Let_def)
  qed
qed

lemma End_needAbort: "needAbort (snd (End s)) = needAbort s"
  by (simp add: End_def readModifyActs_needAbort split: prod.split option.split)

text \<open>
  The parts of C7 that hold: a piece read from the body has at most as many bytes as the
  buffer, and an action other than continue ends \<^verbatim>\<open>BodyReadFrom\<close> at once, without
  \<^verbatim>\<open>End\<close>.
\<close>

lemma reader_Read_bound:
  "fst (reader_Read r n) = ReadOk buf \<Longrightarrow> length buf \<le> n"
  by (induction r n rule: reader_Read.induct) (auto split: if_splits)

lemma BodyReadFrom_returns_terminal:
  assumes "fst (reader_Read r MaxBodyChunk) = ReadOk buf" and "buf \<noteq> []"
    and "fst (BodyChunk s buf) = Return act" and "act_Code act \<noteq> ActContinue"
  shows "BodyReadFrom s r = (Return ([], act), snd (BodyChunk s buf))"
  using assms BodyChunk_never_skip [of s buf act]
  by (subst BodyReadFrom.simps) (simp add: Let_def)

text \<open>
  Claim C4 at the input where the code departs from it: after a successful negotiation the
  milter answers \<^verbatim>\<open>End\<close> with accept. The flag is still set when \<^verbatim>\<open>End\<close> has returned
  the accept action, and \<^verbatim>\<open>Close\<close> then sends an Abort packet before the Quit packet.
\<close>

theorem C4_End_leaves_needAbort_set:
  "negotiate
     \<lparr>conn = \<lparr>rx = [0, 0, 0, 13, CodeOptNeg, 0, 0, 0, 2, 0, 0, 0, 1, 0, 0, 0, 0,
                     0, 0, 0, 1, ActAccept],
               tx = [], wr = [], closed = False\<rparr>,
      ActionOpts = 0, ProtocolOpts = 0, needAbort = False\<rparr> 1 0
   = (Return (),
      \<lparr>conn = \<lparr>rx = [0, 0, 0, 1, ActAccept],
               tx = [0, 0, 0, 13, CodeOptNeg, 0, 0, 0, 2, 0, 0, 0, 1, 0, 0, 0, 0],
               wr = [], closed = False\<rparr>,
       ActionOpts = 1, ProtocolOpts = 0, needAbort = True\<rparr>)
   \<and> End \<lparr>conn = \<lparr>rx = [0, 0, 0, 1, ActAccept],
                    tx = [0, 0, 0, 13, CodeOptNeg, 0, 0, 0, 2, 0, 0, 0, 1, 0, 0, 0, 0],
                    wr = [], closed = False\<rparr>,
            ActionOpts = 1, ProtocolOpts = 0, needAbort = True\<rparr>
     = (Return ([], \<lparr>act_Code = ActAccept, SMTPCode = 0, SMTPText = []\<rparr>),
        \<lparr>conn = \<lparr>rx = [],
                 tx = [0, 0, 0, 13, CodeOptNeg, 0, 0, 0, 2, 0, 0, 0, 1, 0, 0, 0, 0,
                       0, 0, 0, 1, CodeEOB],
                 wr = [], closed = False\<rparr>,
         ActionOpts = 1, ProtocolOpts = 0, needAbort = True\<rparr>)
   \<and> Close \<lparr>conn = \<lparr>rx = [],
                      tx = [0, 0, 0, 13, CodeOptNeg, 0, 0, 0, 2, 0, 0, 0, 1, 0, 0, 0, 0,
                            0, 0, 0, 1, CodeEOB],
                      wr = [], closed = False\<rparr>,
              ActionOpts = 1, ProtocolOpts = 0, needAbort = True\<rparr>
     = (Return (),
        \<lparr>conn = \<lparr>rx = [],
                 tx = [0, 0, 0, 13, CodeOptNeg, 0, 0, 0, 2, 0, 0, 0, 1, 0, 0, 0, 0,
                       0, 0, 0, 1, CodeEOB, 0, 0, 0, 1, CodeAbort, 0, 0, 0, 1, CodeQuit],
                 wr = [], closed = True\<rparr>,
         ActionOpts = 1, ProtocolOpts = 0, needAbort = True\<rparr>)"
  by (simp add: negotiate_def End_def Close_def conn_Close_def readModifyActs.simps
        parseAction_def isModifyActCode_def frame_defs Let_def)

text \<open>
  Claim C7 at the input where the code departs from it: the reader delivers two chunks and
  the milter answers the first with skip. \<^verbatim>\<open>parseAction\<close> rejects the code, so
  \<^verbatim>\<open>BodyReadFrom\<close> returns an error after the first \<^verbatim>\<open>'B'\<close> packet and sends no
  \<^verbatim>\<open>'E'\<close> packet: \<^verbatim>\<open>End\<close> is not called.
\<close>

theorem C7_BodyReadFrom_skip_is_an_error:
  "BodyReadFrom
     \<lparr>conn = \<lparr>rx = [0, 0, 0, 1, ActSkip, 0, 0, 0, 1, ActAccept],
               tx = [], wr = [], closed = False\<rparr>,
      ActionOpts = 0, ProtocolOpts = 0x400, needAbort = True\<rparr>
     [RdData [1], RdData [2]]
   = (Fail ProtocolError,
      \<lparr>conn = \<lparr>rx = [0, 0, 0, 1, ActAccept], tx = [0, 0, 0, 2, CodeBody, 1],
               wr = [], closed = False\<rparr>,
       ActionOpts = 0, ProtocolOpts = 0x400, needAbort = False\<rparr>)"
  by (simp add: BodyReadFrom.simps BodyChunk_def ProtocolOption_def readAction.simps
        parseAction_def frame_defs Let_def)

subsection \<open>Server: empty header values and Abort\<close>

text \<open>
  A NUL-free name followed by two NULs decodes to the name alone: the trailing NULs are
  trimmed, empty value and all.
\<close>

lemma decodeCStrings_empty_value:
  assumes "nul_free name"
  shows "decodeCStrings (name @ [0, 0]) = [name]"
proof (cases "name = []")
  case True
  then show ?thesis by (simp add: decodeCStrings_def trim_nul_def)
next
  case False
  with assms have ends: "hd name \<noteq> 0" "last name \<noteq> 0"
    unfolding nul_free_def by (metis hd_in_set, metis last_in_set)
  from False ends(1) obtain a t where a: "name = a # t" "a \<noteq> 0"
    by (cases name) auto
  from False ends(2) obtain u z where z: "name = u @ [z]" "z \<noteq> 0"
    by (cases name rule: rev_cases) auto
  have "dropWhile (\<lambda>b. b = 0) (name @ [0, 0]) = name @ [0, 0]"
    using a(2) by (simp add: a(1))
  moreover have "dropWhile (\<lambda>b. b = 0) (rev (name @ [0, 0])) = rev name"
    using z(2) by (simp add: z(1))
  ultimately have "rev (dropWhile (\<lambda>b. b = 0) (rev (dropWhile (\<lambda>b. b = 0) (name @ [0, 0])))) = name"
    by simp
  then have "trim_nul (name @ [0, 0]) = name" by (simp add: trim_nul_def)
  with assms show ?thesis by (simp add: decodeCStrings_def split_nul_nul_free)
qed

text \<open>
  Claim C6, as amended. When the server processes a header packet \<^verbatim>\<open>'L'\<close> whose payload
  is a NUL-free name followed by two NULs, it synthesises an empty value: the \<^verbatim>\<open>Header\<close>
  callback is invoked with that name and the empty string (and a modifier that shows the updated
  collection); the accumulated headers then hold, under the canonical form of the name, the
  values accumulated under it so far followed by the empty string, which is the list of exactly
  the empty string when nothing was accumulated under it before; and an end-of-headers packet
  processed next passes that collection to the \<^verbatim>\<open>Headers\<close> callback.
\<close>

theorem C6_empty_header_value_amended:
  assumes "nul_free name"
  shows "let key = CanonicalMIMEHeaderKey lib name;
             hs = (case headers m of None \<Rightarrow> Map.empty | Some h \<Rightarrow> h);
             hs' = hs(key \<mapsto> (case hs key of None \<Rightarrow> [] | Some vs \<Rightarrow> vs) @ [[]]);
             r = Process M lib m \<lparr>Code = CodeHeader, Data = name @ [0, 0]\<rparr>
         in r = call_backend (m\<lparr>headers := Some hs'\<rparr>)
                  (h_Header M (backend m) name [] \<lparr>Macros = macros m, Headers = Some hs'\<rparr>)
          \<and> headers (snd r) = Some hs'
          \<and> (hs key = None \<longrightarrow> hs' key = Some [[]])
          \<and> Process M lib (snd r) \<lparr>Code = CodeEOH, Data = d\<rparr>
              = call_backend (snd r)
                  (h_Headers M (backend (snd r)) (Some hs')
                     \<lparr>Macros = macros m, Headers = Some hs'\<rparr>)"
proof -
  define key where "key = CanonicalMIMEHeaderKey lib name"
  define hs where "hs = (case headers m of None \<Rightarrow> Map.empty | Some h \<Rightarrow> h)"
  define hs' where "hs' = hs(key \<mapsto> (case hs key of None \<Rightarrow> [] | Some vs \<Rightarrow> vs) @ [[]])"
  define r where "r = Process M lib m \<lparr>Code = CodeHeader, Data = name @ [0, 0]\<rparr>"
  have r: "r = call_backend (m\<lparr>headers := Some hs'\<rparr>)
                 (h_Header M (backend m) name [] \<lparr>Macros = macros m, Headers = Some hs'\<rparr>)"
    using assms
    by (simp add: r_def Process_def decodeCStrings_empty_value Let_def MIMEHeader_Add_def
          newModifier_def hs'_def hs_def key_def)
  then have h: "headers (snd r) = Some hs'" and mc: "macros (snd r) = macros m"
    by (simp_all add: call_backend_def)
  have e: "Process M lib (snd r) \<lparr>Code = CodeEOH, Data = d\<rparr>
             = call_backend (snd r)
                 (h_Headers M (backend (snd r)) (Some hs') \<lparr>Macros = macros m, Headers = Some hs'\<rparr>)"
    by (simp add: Process_def newModifier_def h mc)
  have "hs key = None \<longrightarrow> hs' key = Some [[]]" by (simp add: hs'_def)
  with r h e show ?thesis
    unfolding Let_def key_def [symmetric] hs_def [symmetric] hs'_def [symmetric] r_def [symmetric]
    by simp
qed


text \<open>
  Evaluating the recording handler.
\<close>

lemmas mock_defs =
  MockMilter_def respond_def mock0_def plainlib_def fresh_session_def call_backend_def emit_def
  RespContinue_def NewResponse_def

lemma MockMilter_sel:
  "h_Header MockMilter h name val md
     = respond RespContinue (h\<lparr>mock_fields := mock_fields h @ [(name, val)]\<rparr>)"
  "h_Headers MockMilter h hdrs md = respond RespContinue (h\<lparr>mock_Hdr := hdrs\<rparr>)"
  "h_Abort MockMilter h md
     = \<lparr>cb_result = (), cb_error = False, cb_backend = h\<lparr>mock_abort := Some md\<rparr>,
        cb_packets = []\<rparr>"
  by (simp_all add: MockMilter_def)

text \<open>
  Witness for C6 as amended: the packet \<^verbatim>\<open>L X\x00\x00\<close> on a fresh session; the handler has
  seen \<^verbatim>\<open>("X", "")\<close>, and the collection given to \<^verbatim>\<open>Headers\<close> maps \<^verbatim>\<open>X\<close> to
  \<^verbatim>\<open>[""]\<close>.
\<close>

theorem C6_empty_header_value_amended_witness:
  "nul_free [0x58]
   \<and> mock_fields (backend (snd (Process MockMilter plainlib fresh_session
         \<lparr>Code = CodeHeader, Data = [0x58, 0, 0]\<rparr>))) = [([0x58], [])]
   \<and> headers (snd (Process MockMilter plainlib fresh_session
         \<lparr>Code = CodeHeader, Data = [0x58, 0, 0]\<rparr>)) = Some [[0x58] \<mapsto> [[]]]
   \<and> mock_Hdr (backend (snd (Process MockMilter plainlib
         (snd (Process MockMilter plainlib fresh_session
                 \<lparr>Code = CodeHeader, Data = [0x58, 0, 0]\<rparr>))
         \<lparr>Code = CodeEOH, Data = []\<rparr>))) = Some [[0x58] \<mapsto> [[]]]"
proof -
  have n: "nul_free [0x58]" by (simp add: nul_free_def)
  define r where
    "r = Process MockMilter plainlib fresh_session \<lparr>Code = CodeHeader, Data = [0x58, 0, 0]\<rparr>"
  define m1 where
    "m1 = fresh_session\<lparr>headers := Some [[0x58] \<mapsto> [[]]],
            backend := mock0\<lparr>mock_fields := [([0x58], [])]\<rparr>\<rparr>"
  have h: "headers fresh_session = None" "macros fresh_session = None"
    "backend fresh_session = mock0" "CanonicalMIMEHeaderKey plainlib [0x58] = [0x58]"
    by (simp_all add: fresh_session_def plainlib_def)
  note t = C6_empty_header_value_amended
    [OF n, of plainlib fresh_session MockMilter "[]", unfolded Let_def]
  from t [THEN conjunct1] have r: "r = (Return (Some RespContinue), m1)"
    by (simp add: h MockMilter_sel respond_def call_backend_def mock0_def emit_def
          r_def m1_def fresh_session_def)
  from t [THEN conjunct2, THEN conjunct2, THEN conjunct2]
  have "Process MockMilter plainlib (snd r) \<lparr>Code = CodeEOH, Data = []\<rparr>
      = call_backend (snd r)
          (h_Headers MockMilter (backend (snd r)) (Some [[0x58] \<mapsto> [[]]])
             \<lparr>Macros = None, Headers = Some [[0x58] \<mapsto> [[]]]\<rparr>)"
    by (simp add: h r_def)
  with r have "mock_Hdr (backend (snd (Process MockMilter plainlib m1
      \<lparr>Code = CodeEOH, Data = []\<rparr>))) = Some [[0x58] \<mapsto> [[]]]"
    by (simp add: MockMilter_sel respond_def call_backend_def)
  with r n show ?thesis
    by (simp add: r_def [symmetric] m1_def mock0_def)
qed

text \<open>
  Counterexample to C6 as stated: a fresh session receives the header \<^verbatim>\<open>X\<close> twice, first
  with the value \<^verbatim>\<open>a\<close>, then with the empty value (payload \<^verbatim>\<open>X\x00\x00\<close>), then the end
  of headers. The \<^verbatim>\<open>Header\<close> callback sees \<^verbatim>\<open>("X", "a")\<close> and \<^verbatim>\<open>("X", "")\<close>, and the
  collection passed to the end-of-headers callback maps \<^verbatim>\<open>X\<close> to \<^verbatim>\<open>["a", ""]\<close>, not to
  the list of exactly the empty string.
\<close>

theorem C6_empty_header_value_counterexample:
  "mock_fields (backend (snd (HandleMilterCommands MockMilter plainlib
      (fresh_session\<lparr>m_conn :=
         \<lparr>rx = [0, 0, 0, 5, CodeHeader, 0x58, 0, 0x61, 0,
                 0, 0, 0, 4, CodeHeader, 0x58, 0, 0,
                 0, 0, 0, 1, CodeEOH],
          tx = [], wr = [], closed = False\<rparr>\<rparr>))))
     = [([0x58], [0x61]), ([0x58], [])]
   \<and> mock_Hdr (backend (snd (HandleMilterCommands MockMilter plainlib
      (fresh_session\<lparr>m_conn :=
         \<lparr>rx = [0, 0, 0, 5, CodeHeader, 0x58, 0, 0x61, 0,
                 0, 0, 0, 4, CodeHeader, 0x58, 0, 0,
                 0, 0, 0, 1, CodeEOH],
          tx = [], wr = [], closed = False\<rparr>\<rparr>))))
     = Some [[0x58] \<mapsto> [[0x61], []]]
   \<and> [[0x61], []] \<noteq> [[] :: bytes]"
  by (simp add: HandleMilterCommands.simps HandleMilterCommands_step_def Process_def
        newModifier_def MIMEHeader_Add_def decodeCStrings_def trim_nul_def
        mock_defs frame_defs conn_Close_def Let_def)

text \<open>
  Claim C10. When the server processes an Abort packet, the \<^verbatim>\<open>Abort\<close> callback is called with
  a modifier holding the macro map and the accumulated headers as they were before the packet;
  after the callback the session's macros and headers are nil (empty), whether or not the
  callback failed; and no response is returned for the packet, so the loop of
  \<^verbatim>\<open>HandleMilterCommands\<close> writes no reply: the connection carries only what the callback
  itself sent through the modifier, and nothing new if it sent nothing.
\<close>

theorem C10_abort_deferred_clear:
  "(let cb = h_Abort M (backend m) \<lparr>Macros = macros m, Headers = headers m\<rparr>
    in Process M lib m \<lparr>Code = CodeAbort, Data = d\<rparr>
         = ((if cb_error cb then Fail HandlerError else Return None),
            m\<lparr>backend := cb_backend cb, m_conn := emit (m_conn m) (cb_packets cb),
              headers := None, macros := None\<rparr>)
       \<and> (readPacket (m_conn m) = (Return \<lparr>Code = CodeAbort, Data = d\<rparr>, c) \<longrightarrow>
            HandleMilterCommands_step M lib m
              = (Return (\<not> cb_error cb),
                 m\<lparr>backend := cb_backend cb, m_conn := emit c (cb_packets cb),
                   headers := None, macros := None\<rparr>)
            \<and> (cb_packets cb = [] \<longrightarrow>
                 tx (m_conn (snd (HandleMilterCommands_step M lib m))) = tx (m_conn m))))"
proof -
  define cb where "cb = h_Abort M (backend m) \<lparr>Macros = macros m, Headers = headers m\<rparr>"
  have p: "Process M lib m' \<lparr>Code = CodeAbort, Data = d\<rparr>
         = ((if cb_error cb then Fail HandlerError else Return None),
            m'\<lparr>backend := cb_backend cb, m_conn := emit (m_conn m') (cb_packets cb),
              headers := None, macros := None\<rparr>)"
    if "backend m' = backend m" "macros m' = macros m" "headers m' = headers m" for m'
    using that by (simp add: Process_def newModifier_def Let_def cb_def)
  have s: "HandleMilterCommands_step M lib m
              = (Return (\<not> cb_error cb),
                 m\<lparr>backend := cb_backend cb, m_conn := emit c (cb_packets cb),
                   headers := None, macros := None\<rparr>)"
    if "readPacket (m_conn m) = (Return \<lparr>Code = CodeAbort, Data = d\<rparr>, c)"
    using that by (simp add: HandleMilterCommands_step_def Let_def p)
  have t: "tx (m_conn (snd (HandleMilterCommands_step M lib m))) = tx (m_conn m)"
    if "readPacket (m_conn m) = (Return \<lparr>Code = CodeAbort, Data = d\<rparr>, c)" "cb_packets cb = []"
  proof -
    from that(1) have "tx c = tx (m_conn m)"
      using tx_readPacket [of "m_conn m"] by simp
    with that show ?thesis by (simp add: s emit_def)
  qed
  from p [of m] s t show ?thesis
    unfolding Let_def cb_def [symmetric] by simp
qed

text \<open>
  Witness for C10: a session holding one macro and one header reads an Abort packet; the
  handler records the modifier it was given, which still has both; afterwards the session has
  neither and nothing was written.
\<close>

theorem C10_abort_deferred_clear_witness:
  "HandleMilterCommands_step MockMilter plainlib
     (fresh_session
        \<lparr>m_conn := \<lparr>rx = [0, 0, 0, 1, CodeAbort], tx = [], wr = [], closed = False\<rparr>,
         headers := Some [[0x58] \<mapsto> [[0x61]]], macros := Some [[0x6A] \<mapsto> [0x31]]\<rparr>)
   = (Return True,
      fresh_session
        \<lparr>m_conn := \<lparr>rx = [], tx = [], wr = [], closed = False\<rparr>,
         headers := None, macros := None,
         backend := mock0\<lparr>mock_abort :=
            Some \<lparr>Macros = Some [[0x6A] \<mapsto> [0x31]], Headers = Some [[0x58] \<mapsto> [[0x61]]]\<rparr>\<rparr>\<rparr>)"
proof -
  let ?m = "fresh_session
        \<lparr>m_conn := \<lparr>rx = [0, 0, 0, 1, CodeAbort], tx = [], wr = [], closed = False\<rparr>,
         headers := Some [[0x58] \<mapsto> [[0x61]]], macros := Some [[0x6A] \<mapsto> [0x31]]\<rparr>"
  have rd: "readPacket (m_conn ?m)
              = (Return \<lparr>Code = CodeAbort, Data = []\<rparr>, \<lparr>rx = [], tx = [], wr = [], closed = False\<rparr>)"
    by (simp add: fresh_session_def frame_defs)
  have h: "headers ?m = Some [[0x58] \<mapsto> [[0x61]]]" "macros ?m = Some [[0x6A] \<mapsto> [0x31]]"
    "backend ?m = mock0"
    by (simp_all add: fresh_session_def)
  show ?thesis
    using rd C10_abort_deferred_clear
      [of MockMilter ?m plainlib "[]" "\<lparr>rx = [], tx = [], wr = [], closed = False\<rparr>"]
    by (simp add: Let_def h MockMilter_sel emit_def)
qed

end
